theory Spec2Isabelle
  imports Complex_Main "HOL-Library.Sublist"
begin

section \<open>Python strings\<close>

text \<open>
  A Python \<open>str\<close> is modelled as a \<open>string\<close>: a list of characters, each standing for
  one code point below 256. The helpers below are the \<open>str\<close> methods the sources call.
\<close>

definition LF :: char where
  "LF = CHR 0x0A"

definition CR :: char where
  "CR = CHR 0x0D"

definition QUOTE :: char where
  "QUOTE = CHR 0x27"

definition DQUOTE :: char where
  "DQUOTE = CHR 0x22"

definition BACKTICK :: char where
  "BACKTICK = CHR 0x60"

text \<open>\<open>sub in s\<close> for two strings.\<close>

fun str_contains :: "string \<Rightarrow> string \<Rightarrow> bool" where
  "str_contains [] sub = (sub = [])"
| "str_contains (c # cs) sub = (prefix sub (c # cs) \<or> str_contains cs sub)"

text \<open>\<open>str.isspace\<close> on one code point below 256.\<close>

definition py_isspace :: "char \<Rightarrow> bool" where
  "py_isspace c = ((of_char c :: nat) \<in> {9, 10, 11, 12, 13, 28, 29, 30, 31, 32, 133, 160})"

text \<open>\<open>s.strip()\<close>.\<close>

definition py_strip :: "string \<Rightarrow> string" where
  "py_strip s = rev (dropWhile py_isspace (rev (dropWhile py_isspace s)))"

text \<open>The line boundaries of \<open>str.splitlines\<close> (below 256); \<open>\r\n\<close> counts as one.\<close>

definition is_linebreak :: "char \<Rightarrow> bool" where
  "is_linebreak c = ((of_char c :: nat) \<in> {10, 11, 12, 13, 28, 29, 30, 133})"

fun splitlines_from :: "string \<Rightarrow> string \<Rightarrow> string list" where
  "splitlines_from cur [] = (if cur = [] then [] else [cur])"
| "splitlines_from cur [c] =
     (if is_linebreak c then [cur] else [cur @ [c]])"
| "splitlines_from cur (c # d # cs) =
     (if c = CR \<and> d = LF then cur # splitlines_from [] cs
      else if is_linebreak c then cur # splitlines_from [] (d # cs)
      else splitlines_from (cur @ [c]) (d # cs))"

definition splitlines :: "string \<Rightarrow> string list" where
  "splitlines s = splitlines_from [] s"

text \<open>\<open>sep.join(xs)\<close>.\<close>

fun str_join :: "string \<Rightarrow> string list \<Rightarrow> string" where
  "str_join sep [] = []"
| "str_join sep [x] = x"
| "str_join sep (x # y # ys) = x @ sep @ str_join sep (y # ys)"

text \<open>\<open>s.replace(c, '')\<close> for a one-character \<open>c\<close>.\<close>

definition remove_char :: "char \<Rightarrow> string \<Rightarrow> string" where
  "remove_char c s = filter (\<lambda>x. x \<noteq> c) s"

text \<open>\<open>s.split("\n")[0]\<close>: the text before the first line feed (the list is never empty).\<close>

definition first_line :: "string \<Rightarrow> string" where
  "first_line s = takeWhile (\<lambda>c. c \<noteq> LF) s"

text \<open>\<open>repr\<close> of a list of strings that hold no quote or backslash: \<open>['a', 'b']\<close>.\<close>

definition repr_str_list :: "string list \<Rightarrow> string" where
  "repr_str_list xs = ''['' @ str_join '', '' (map (\<lambda>x. [QUOTE] @ x @ [QUOTE]) xs) @ '']''"

section \<open>Exceptions\<close>

datatype exn_class =
  Exception | ValueError | TypeError | ImportError | IndexError | AttributeError
  | KeyError | FileNotFoundError | OSError | APIError

text \<open>An exception: its class and \<open>str(e)\<close>.\<close>

datatype exn = Exn exn_class string

text \<open>
  The messages of the exceptions the program raises itself are the program's own, character
  for character. The messages of exceptions raised by the interpreter or a library
  (\<open>IndexError\<close>, \<open>AttributeError\<close>, \<open>TypeError\<close>, \<open>OSError\<close>) are written without the
  quotes and qualified names the interpreter adds.
\<close>

fun str_of :: "exn \<Rightarrow> string" where
  "str_of (Exn _ msg) = msg"

fun class_of :: "exn \<Rightarrow> exn_class" where
  "class_of (Exn c _) = c"

section \<open>The missing-module pattern\<close>

text \<open>
  \<open>re.search(r"No module named '([^']+)'", s)\<close>, returning \<open>match.group(1)\<close>. The class
  \<open>[^']\<close> cannot cross a quote, so a match at a position is the literal, then the longest
  run of non-quote characters, which must be non-empty and followed by a quote.
\<close>

definition NO_MODULE :: string where
  "NO_MODULE = ''No module named '' @ [QUOTE]"

definition match_here :: "string \<Rightarrow> string option" where
  "match_here s =
     (if prefix NO_MODULE s then
        (let rest = drop (length NO_MODULE) s;
             name = takeWhile (\<lambda>c. c \<noteq> QUOTE) rest
         in if name \<noteq> [] \<and> dropWhile (\<lambda>c. c \<noteq> QUOTE) rest \<noteq> [] then Some name else None)
      else None)"

fun re_search_no_module :: "string \<Rightarrow> string option" where
  "re_search_no_module [] = None"
| "re_search_no_module (c # cs) =
     (case match_here (c # cs) of
        Some name \<Rightarrow> Some name
      | None \<Rightarrow> re_search_no_module cs)"

section \<open>Values, clients and upstream responses\<close>

text \<open>The Python values that travel in keyword arguments and request parameters.\<close>

datatype pyval =
  PNone | PBool bool | PInt int | PFloat real | PStr string
  | PMessages "(string \<times> string) list"

text \<open>The two provider classes shipped in \<open>providers/\<close>.\<close>

datatype provider_class = GroqProvider | OpenAIProvider

text \<open>
  An SDK client object (\<open>Groq(api_key=...)\<close> or \<open>OpenAI(api_key=...)\<close>); \<open>client_id\<close> is the
  identity of the object.
\<close>

record client =
  sdk :: provider_class
  client_api_key :: string
  client_id :: nat

text \<open>
  What \<open>client.chat.completions.create\<close> returns: a completion, given by the
  \<open>message.content\<close> of each of its choices, or a stream, given by the \<open>delta.content\<close> of
  the choices of each chunk and by the exception the iterator raises after the last chunk,
  if it raises one.
\<close>

datatype chat_response =
  ChatCompletion "string option list"
  | ChatStream "string option list list" "exn option"

section \<open>The operating system\<close>

text \<open>
  \<open>subprocess.CompletedProcess\<close> with \<open>capture_output=True, text=True\<close>.
\<close>

record completed_process =
  returncode :: int
  stdout :: string
  stderr :: string

datatype fs_op = OpWrite | OpRemove | OpMkdir

text \<open>
  The state the program acts on: the regular files (path to content), the file operations
  the operating system refuses, the argument vectors of the child processes started so
  far (oldest first), the requests sent upstream so far with the client that sent each,
  the number of client objects constructed so far, and the class-level dictionary
  \<open>ProviderFactory._providers\<close> in insertion order.
\<close>

record world =
  files :: "string \<rightharpoonup> string"
  refused :: "(fs_op \<times> string) set"
  proc_log :: "string list list"
  api_log :: "(client \<times> (string \<rightharpoonup> pyval)) list"
  next_client_id :: nat
  providers_registry :: "(string \<times> provider_class) list"

text \<open>
  What lies outside the program: the interpreter's path (\<open>sys.executable\<close>); the
  behaviour of a child process, which may depend on the processes run before it and on the
  files, and may change the files (starting a child can itself raise); the upstream
  service behind \<open>client.chat.completions.create\<close>, which may depend on the requests sent
  before; whether the \<open>groq\<close> and \<open>openai\<close> libraries can be imported; the environment
  variables read when \<open>config.py\<close> is imported; and the template
  \<open>PROMPTS["prompts"]["ChatPython"]["generate_code"]["prompt"]\<close> of \<open>prompts.yaml\<close> (a file
  that is not among the sources) applied by \<open>str.format(prompt=...)\<close>, which raises when
  the entry is missing or the template is malformed.
\<close>

record platform =
  sys_executable :: string
  spawn :: "string list list \<Rightarrow> (string \<rightharpoonup> string) \<Rightarrow> string list
            \<Rightarrow> (exn + completed_process) \<times> (string \<rightharpoonup> string)"
  chat_create :: "(client \<times> (string \<rightharpoonup> pyval)) list \<Rightarrow> client \<Rightarrow> (string \<rightharpoonup> pyval)
            \<Rightarrow> exn + chat_response"
  groq_available :: bool
  openai_available :: bool
  environ :: "string \<rightharpoonup> string"
  generate_code_prompt :: "string \<Rightarrow> exn + string"

definition subprocess_run ::
  "platform \<Rightarrow> string list \<Rightarrow> world \<Rightarrow> (exn + completed_process) \<times> world" where
  "subprocess_run P argv w =
     (case spawn P (proc_log w) (files w) argv of
        (r, fs) \<Rightarrow> (r, w\<lparr>files := fs, proc_log := proc_log w @ [argv]\<rparr>))"

definition os_path_exists :: "world \<Rightarrow> string \<Rightarrow> bool" where
  "os_path_exists w p = (files w p \<noteq> None)"

text \<open>\<open>os.path.join(a, b)\<close> on a POSIX system.\<close>

definition os_path_join :: "string \<Rightarrow> string \<Rightarrow> string" where
  "os_path_join a b =
     (if prefix ''/'' b then b
      else if a = [] \<or> last a = CHR ''/'' then a @ b
      else a @ ''/'' @ b)"

text \<open>\<open>os.remove(p)\<close>: the file must exist and the system must allow its removal.\<close>

definition os_remove :: "string \<Rightarrow> world \<Rightarrow> (exn + unit) \<times> world" where
  "os_remove p w =
     (if files w p = None then
        (Inl (Exn FileNotFoundError (''[Errno 2] No such file or directory: '' @ p)), w)
      else if (OpRemove, p) \<in> refused w then
        (Inl (Exn OSError (''[Errno 13] Permission denied: '' @ p)), w)
      else (Inr (), w\<lparr>files := (files w)(p := None)\<rparr>))"

text \<open>\<open>with open(p, "w") as f: f.write(text)\<close>: creates or overwrites.\<close>

definition write_file :: "string \<Rightarrow> string \<Rightarrow> world \<Rightarrow> (exn + unit) \<times> world" where
  "write_file p text w =
     (if (OpWrite, p) \<in> refused w then
        (Inl (Exn OSError (''[Errno 13] Permission denied: '' @ p)), w)
      else (Inr (), w\<lparr>files := (files w)(p \<mapsto> text)\<rparr>))"

text \<open>\<open>os.makedirs(p, exist_ok=True)\<close>: directories are not part of the state.\<close>

definition os_makedirs :: "string \<Rightarrow> world \<Rightarrow> (exn + unit) \<times> world" where
  "os_makedirs p w =
     (if (OpMkdir, p) \<in> refused w then
        (Inl (Exn OSError (''[Errno 13] Permission denied: '' @ p)), w)
      else (Inr (), w))"

section \<open>The execution loop of \<open>ChatPython\<close>\<close>

definition ESC :: char where
  "ESC = CHR 0x1B"

definition GREEN :: string where "GREEN = ESC # ''[92m''"
definition RED :: string where "RED = ESC # ''[91m''"
definition YELLOW :: string where "YELLOW = ESC # ''[93m''"
definition BLUE :: string where "BLUE = ESC # ''[94m''"
definition RESET :: string where "RESET = ESC # ''[0m''"
definition BOLD :: string where "BOLD = ESC # ''[1m''"

text \<open>The argument vectors of the three kinds of child process.\<close>

definition run_argv :: "platform \<Rightarrow> string \<Rightarrow> string list" where
  "run_argv P full_path = [sys_executable P, full_path]"

definition install_argv :: "platform \<Rightarrow> string \<Rightarrow> string list" where
  "install_argv P m = [sys_executable P, ''-m'', ''pip'', ''install'', m]"

definition uninstall_argv :: "platform \<Rightarrow> string \<Rightarrow> string list" where
  "uninstall_argv P m = [sys_executable P, ''-m'', ''pip'', ''uninstall'', m, ''-y'']"

text \<open>
  Lines 142 to 165 of \<open>chat_python.py\<close>: the module is installed, the script is run again,
  and the module is uninstalled when asked; the result of the uninstall is only printed.
\<close>

definition install_and_rerun ::
  "platform \<Rightarrow> string \<Rightarrow> bool \<Rightarrow> string \<Rightarrow> world \<Rightarrow> (exn + string) \<times> world" where
  "install_and_rerun P full_path cleanup_installed_module missing_module w =
     (case subprocess_run P (install_argv P missing_module) w of
        (Inl e, w1) \<Rightarrow> (Inl e, w1)
      | (Inr install_result, w1) \<Rightarrow>
          if returncode install_result = 0 then
            (case subprocess_run P (run_argv P full_path) w1 of
               (Inl e, w2) \<Rightarrow> (Inl e, w2)
             | (Inr result, w2) \<Rightarrow>
                 if returncode result \<noteq> 0 then
                   (Inl (Exn Exception
                      (RED @ ''Error after installing '' @ missing_module @ '':'' @ RESET
                       @ [LF] @ stderr result)), w2)
                 else if cleanup_installed_module then
                   (case subprocess_run P (uninstall_argv P missing_module) w2 of
                      (Inl e, w3) \<Rightarrow> (Inl e, w3)
                    | (Inr uninstall_result, w3) \<Rightarrow> (Inr (stdout result), w3))
                 else (Inr (stdout result), w2))
          else
            (Inl (Exn Exception
               (RED @ ''Failed to install '' @ [QUOTE] @ missing_module @ [QUOTE] @ '':''
                @ [LF] @ stderr install_result @ RESET)), w1))"

text \<open>The body of the \<open>try\<close> of \<open>_run_generated_code\<close> (lines 135 to 168).\<close>

definition run_script ::
  "platform \<Rightarrow> string \<Rightarrow> bool \<Rightarrow> world \<Rightarrow> (exn + string) \<times> world" where
  "run_script P full_path cleanup_installed_module w =
     (case subprocess_run P (run_argv P full_path) w of
        (Inl e, w1) \<Rightarrow> (Inl e, w1)
      | (Inr result, w1) \<Rightarrow>
          if returncode result \<noteq> 0 then
            (if str_contains (stderr result) ''ModuleNotFoundError'' then
               (case re_search_no_module (stderr result) of
                  Some missing_module \<Rightarrow>
                    install_and_rerun P full_path cleanup_installed_module missing_module w1
                | None \<Rightarrow>
                    (Inl (Exn Exception
                       (RED @ ''Script error:'' @ [LF] @ stderr result @ RESET)), w1))
             else
               (Inl (Exn Exception
                  (RED @ ''Script error:'' @ [LF] @ stderr result @ RESET)), w1))
          else (Inr (stdout result), w1))"

text \<open>
  \<open>ChatPython._run_generated_code\<close>, on the root directory and file name of the object.
  The existence check is outside the \<open>try\<close>; everything raised inside it is wrapped.
\<close>

definition run_generated_code ::
  "platform \<Rightarrow> string \<Rightarrow> string \<Rightarrow> bool \<Rightarrow> world \<Rightarrow> (exn + string) \<times> world" where
  "run_generated_code P root_directory file_name cleanup_installed_module w =
     (let full_path = os_path_join root_directory file_name in
      if \<not> os_path_exists w full_path then
        (Inl (Exn FileNotFoundError
           (RED @ ''Error: The file '' @ full_path @ '' does not exist!'' @ RESET)), w)
      else
        (case run_script P full_path cleanup_installed_module w of
           (Inl e, w1) \<Rightarrow>
             (Inl (Exn Exception (RED @ ''Cannot run code: '' @ str_of e @ RESET)), w1)
         | (Inr out, w1) \<Rightarrow> (Inr out, w1)))"

section \<open>Configuration (\<open>config.py\<close>)\<close>

record provider_entry =
  api_key_env :: string
  default_model :: string
  base_url :: string
  client_class :: string

definition AI_PROVIDERS :: "(string \<times> provider_entry) list" where
  "AI_PROVIDERS =
     [(''groq'', \<lparr>api_key_env = ''GROQ_API_KEY'',
                  default_model = ''llama-3.1-70b-versatile'',
                  base_url = ''https://api.groq.com/openai/v1'',
                  client_class = ''GroqClient''\<rparr>),
      (''openai'', \<lparr>api_key_env = ''OPENAI_API_KEY'',
                    default_model = ''gpt-4'',
                    base_url = ''https://api.openai.com/v1'',
                    client_class = ''OpenAIClient''\<rparr>)]"

text \<open>The module-level variables that the import of \<open>config.py\<close> leaves behind.\<close>

record config_module =
  API_KEYS :: "(string \<times> string) list"
  DEFAULT_PROVIDER :: string

text \<open>\<open>x or d\<close> for an optional string \<open>x\<close>: \<open>None\<close> and the empty string are falsy.\<close>

definition str_or :: "string option \<Rightarrow> string \<Rightarrow> string" where
  "str_or x d = (case x of None \<Rightarrow> d | Some v \<Rightarrow> if v = [] then d else v)"

text \<open>Lines 23 to 38 of \<open>config.py\<close>, run once at import.\<close>

definition load_config :: "(string \<rightharpoonup> string) \<Rightarrow> exn + config_module" where
  "load_config env =
     (let default_provider = (case env ''FAWERN_AI_PROVIDER'' of Some v \<Rightarrow> v | None \<Rightarrow> ''groq'');
          api_keys = List.map_filter
            (\<lambda>(name, entry). case env (api_key_env entry) of
                 None \<Rightarrow> None
               | Some k \<Rightarrow> if k = [] then None else Some (name, k)) AI_PROVIDERS
      in if default_provider \<in> set (map fst api_keys) then
           Inr \<lparr>API_KEYS = api_keys, DEFAULT_PROVIDER = default_provider\<rparr>
         else
           (case api_keys of
              (name, _) # _ \<Rightarrow> Inr \<lparr>API_KEYS = api_keys, DEFAULT_PROVIDER = name\<rparr>
            | [] \<Rightarrow> Inl (Exn ValueError
                (''No AI provider API keys found. Please set one of: ''
                 @ repr_str_list (map fst AI_PROVIDERS)))))"

text \<open>The dictionary \<open>get_provider_config\<close> returns: the entry and the key \<open>"api_key"\<close>.\<close>

record provider_config = provider_entry +
  api_key :: string

definition get_provider_config :: "config_module \<Rightarrow> string option \<Rightarrow> exn + provider_config" where
  "get_provider_config C provider_arg =
     (let provider = str_or provider_arg (DEFAULT_PROVIDER C) in
      case map_of AI_PROVIDERS provider of
        None \<Rightarrow>
          Inl (Exn ValueError
            (''Unknown provider: '' @ provider @ ''. Available: ''
             @ repr_str_list (map fst AI_PROVIDERS)))
      | Some entry \<Rightarrow>
          (case map_of (API_KEYS C) provider of
             None \<Rightarrow> Inl (Exn ValueError (''API key not found for provider: '' @ provider))
           | Some k \<Rightarrow>
               if k = [] then Inl (Exn ValueError (''API key not found for provider: '' @ provider))
               else Inr \<lparr>api_key_env = api_key_env entry,
                         default_model = default_model entry,
                         base_url = base_url entry,
                         client_class = client_class entry,
                         api_key = k\<rparr>))"

definition get_available_providers :: "config_module \<Rightarrow> string list" where
  "get_available_providers C = map fst (API_KEYS C)"

section \<open>Providers (\<open>groq_provider.py\<close>, \<open>openai_provider.py\<close>)\<close>

text \<open>
  A provider object. The two classes differ in the SDK client they build, in the name in
  their error messages and in the default of a parameter the factory always passes.
\<close>

record provider =
  p_class :: provider_class
  p_api_key :: string
  p_model :: pyval
  p_kwargs :: "string \<rightharpoonup> pyval"
  p_client :: client

fun class_label :: "provider_class \<Rightarrow> string" where
  "class_label GroqProvider = ''Groq''"
| "class_label OpenAIProvider = ''OpenAI''"

fun library_available :: "platform \<Rightarrow> provider_class \<Rightarrow> bool" where
  "library_available P GroqProvider = groq_available P"
| "library_available P OpenAIProvider = openai_available P"

fun library_missing :: "provider_class \<Rightarrow> string" where
  "library_missing GroqProvider = ''Groq library not installed. Run: pip install groq''"
| "library_missing OpenAIProvider = ''OpenAI library not installed. Run: pip install openai''"

text \<open>\<open>GroqProvider.__init__\<close> and \<open>OpenAIProvider.__init__\<close>: a new client object each time.\<close>

definition new_provider ::
  "platform \<Rightarrow> provider_class \<Rightarrow> string \<Rightarrow> pyval \<Rightarrow> (string \<rightharpoonup> pyval) \<Rightarrow> world
   \<Rightarrow> (exn + provider) \<times> world" where
  "new_provider P cls key mdl kw w =
     (if \<not> library_available P cls then (Inl (Exn ImportError (library_missing cls)), w)
      else
        (Inr \<lparr>p_class = cls, p_api_key = key, p_model = mdl, p_kwargs = kw,
              p_client = \<lparr>sdk = cls, client_api_key = key, client_id = next_client_id w\<rparr>\<rparr>,
         w\<lparr>next_client_id := Suc (next_client_id w)\<rparr>))"

text \<open>\<open>kwargs.get(k, d)\<close>.\<close>

definition dict_get :: "('k \<rightharpoonup> 'v) \<Rightarrow> 'k \<Rightarrow> 'v \<Rightarrow> 'v" where
  "dict_get d k dflt = (case d k of None \<Rightarrow> dflt | Some v \<Rightarrow> v)"

text \<open>The dictionary \<open>params\<close> after \<open>params.update(kwargs)\<close>.\<close>

definition request_params ::
  "provider \<Rightarrow> string \<Rightarrow> (string \<rightharpoonup> pyval) \<Rightarrow> bool \<Rightarrow> (string \<rightharpoonup> pyval)" where
  "request_params self text kw stream =
     [''model'' \<mapsto> p_model self,
      ''messages'' \<mapsto> PMessages [(''user'', text)],
      ''temperature'' \<mapsto> dict_get kw ''temperature'' (PFloat 0.5),
      ''max_tokens'' \<mapsto> dict_get kw ''max_tokens'' (PInt 1000),
      ''top_p'' \<mapsto> dict_get kw ''top_p'' (PFloat 1.0),
      ''stream'' \<mapsto> PBool stream] ++ kw"

text \<open>\<open>self._client.chat.completions.create(**params)\<close>: the request is sent and logged.\<close>

definition chat_completions_create ::
  "platform \<Rightarrow> client \<Rightarrow> (string \<rightharpoonup> pyval) \<Rightarrow> world \<Rightarrow> (exn + chat_response) \<times> world" where
  "chat_completions_create P c params w =
     (chat_create P (api_log w) c params, w\<lparr>api_log := api_log w @ [(c, params)]\<rparr>)"

text \<open>\<open>completion.choices[0].message.content.strip()\<close>.\<close>

fun completion_text :: "chat_response \<Rightarrow> exn + string" where
  "completion_text (ChatCompletion []) = Inl (Exn IndexError ''list index out of range'')"
| "completion_text (ChatCompletion (None # _)) =
     Inl (Exn AttributeError ''NoneType object has no attribute strip'')"
| "completion_text (ChatCompletion (Some s # _)) = Inr (py_strip s)"
| "completion_text (ChatStream _ _) =
     Inl (Exn AttributeError ''Stream object has no attribute choices'')"

definition api_error :: "provider \<Rightarrow> exn \<Rightarrow> exn" where
  "api_error self e = Exn Exception (class_label (p_class self) @ '' API error: '' @ str_of e)"

text \<open>\<open>get_completion\<close> of both provider classes.\<close>

definition get_completion ::
  "platform \<Rightarrow> provider \<Rightarrow> string \<Rightarrow> (string \<rightharpoonup> pyval) \<Rightarrow> world \<Rightarrow> (exn + string) \<times> world" where
  "get_completion P self text kw w =
     (case chat_completions_create P (p_client self) (request_params self text kw False) w of
        (Inl e, w1) \<Rightarrow> (Inl (api_error self e), w1)
      | (Inr completion, w1) \<Rightarrow>
          (case completion_text completion of
             Inl e \<Rightarrow> (Inl (api_error self e), w1)
           | Inr s \<Rightarrow> (Inr s, w1)))"

text \<open>
  The loop \<open>for chunk in completion: if chunk.choices[0].delta.content: yield ...\<close>: the
  chunks yielded, and the exception that ended the iteration, if one did. A chunk with no
  choice raises; an absent or empty content is skipped.
\<close>

fun stream_deltas :: "string option list list \<Rightarrow> exn option \<Rightarrow> string list \<times> exn option" where
  "stream_deltas [] err = ([], err)"
| "stream_deltas ([] # rest) err = ([], Some (Exn IndexError ''list index out of range''))"
| "stream_deltas ((d # ds) # rest) err =
     (case stream_deltas rest err of
        (ys, e) \<Rightarrow>
          (case d of
             None \<Rightarrow> (ys, e)
           | Some s \<Rightarrow> if s = [] then (ys, e) else (s # ys, e)))"

text \<open>
  \<open>get_streaming_completion\<close> of both provider classes, consumed to its end: the chunks it
  yielded and the exception it raised after them, if it raised one.
\<close>

definition get_streaming_completion ::
  "platform \<Rightarrow> provider \<Rightarrow> string \<Rightarrow> (string \<rightharpoonup> pyval) \<Rightarrow> world
   \<Rightarrow> (string list \<times> exn option) \<times> world" where
  "get_streaming_completion P self text kw w =
     (case chat_completions_create P (p_client self) (request_params self text kw True) w of
        (Inl e, w1) \<Rightarrow> (([], Some (api_error self e)), w1)
      | (Inr (ChatCompletion _), w1) \<Rightarrow>
          (([], Some (api_error self (Exn AttributeError ''tuple object has no attribute choices''))), w1)
      | (Inr (ChatStream chunks err), w1) \<Rightarrow>
          (case stream_deltas chunks err of
             (ys, None) \<Rightarrow> ((ys, None), w1)
           | (ys, Some e) \<Rightarrow> ((ys, Some (api_error self e)), w1)))"

section \<open>The factory (\<open>provider_factory.py\<close>)\<close>

text \<open>The value of \<open>ProviderFactory._providers\<close> when the module is imported.\<close>

definition initial_registry :: "(string \<times> provider_class) list" where
  "initial_registry = [(''groq'', GroqProvider), (''openai'', OpenAIProvider)]"

text \<open>\<open>d[k] = v\<close> on a dictionary kept in insertion order.\<close>

fun dict_set :: "'k \<Rightarrow> 'v \<Rightarrow> ('k \<times> 'v) list \<Rightarrow> ('k \<times> 'v) list" where
  "dict_set k v [] = [(k, v)]"
| "dict_set k v ((k', v') # xs) =
     (if k' = k then (k, v) # xs else (k', v') # dict_set k v xs)"

text \<open>
  \<open>ProviderFactory.register_provider\<close>, for one of the two classes of the package (each
  is a subclass of \<open>BaseProvider\<close>, so the check passes).
\<close>

definition register_provider :: "string \<Rightarrow> provider_class \<Rightarrow> world \<Rightarrow> world" where
  "register_provider name cls w =
     w\<lparr>providers_registry := dict_set name cls (providers_registry w)\<rparr>"

text \<open>\<open>ProviderFactory.get_available_providers\<close>.\<close>

definition factory_available_providers :: "world \<Rightarrow> string list" where
  "factory_available_providers w = map fst (providers_registry w)"

text \<open>
  \<open>ProviderFactory.get_provider(provider_name, **kwargs)\<close>. The dictionary of
  \<open>get_provider_config\<close> has no key \<open>"provider"\<close>, so a falsy name becomes \<open>"groq"\<close>.
  A key \<open>"api_key"\<close> left in \<open>kwargs\<close> makes the call of the class a \<open>TypeError\<close>.
\<close>

definition get_provider ::
  "platform \<Rightarrow> config_module \<Rightarrow> string option \<Rightarrow> (string \<rightharpoonup> pyval) \<Rightarrow> world
   \<Rightarrow> (exn + provider) \<times> world" where
  "get_provider P C name_arg kw w =
     (case get_provider_config C name_arg of
        Inl e \<Rightarrow> (Inl e, w)
      | Inr config \<Rightarrow>
          (let name = str_or name_arg ''groq'' in
           case map_of (providers_registry w) name of
             None \<Rightarrow>
               (Inl (Exn ValueError
                  (''Unknown provider: '' @ name @ ''. Available: ''
                   @ repr_str_list (map fst (providers_registry w)))), w)
           | Some cls \<Rightarrow>
               (let mdl = dict_get kw ''model'' (PStr (default_model config));
                    rest = kw(''model'' := None)
                in if rest ''api_key'' \<noteq> None then
                     (Inl (Exn TypeError
                        ''__init__() got multiple values for keyword argument api_key''), w)
                   else new_provider P cls (api_key config) mdl rest w)))"

section \<open>The assistant (\<open>base_assistant.py\<close>)\<close>

record base_assistant =
  provider_name :: string
  model :: "string option"
  temperature :: real
  max_tokens :: int
  top_p :: real
  kwargs :: "string \<rightharpoonup> pyval"
  provider_config :: provider_config
  provider :: "provider option"

definition py_of_model :: "string option \<Rightarrow> pyval" where
  "py_of_model m = (case m of None \<Rightarrow> PNone | Some s \<Rightarrow> PStr s)"

text \<open>
  \<open>BaseAssistant._initialize_provider\<close>. The call passes \<open>provider_name\<close> and \<open>model\<close> by
  keyword next to \<open>**self.kwargs\<close>, so either key in \<open>self.kwargs\<close> is a \<open>TypeError\<close>, caught
  like every other exception of the call. The object is returned as the call leaves it.
\<close>

definition initialize_provider ::
  "platform \<Rightarrow> config_module \<Rightarrow> 'a base_assistant_scheme \<Rightarrow> world
   \<Rightarrow> (exn + unit) \<times> 'a base_assistant_scheme \<times> world" where
  "initialize_provider P C self w =
     (case (if kwargs self ''provider_name'' \<noteq> None then
              (Inl (Exn TypeError
                 ''get_provider() got multiple values for keyword argument provider_name''), w)
            else if kwargs self ''model'' \<noteq> None then
              (Inl (Exn TypeError
                 ''get_provider() got multiple values for keyword argument model''), w)
            else get_provider P C (Some (provider_name self))
                   ((kwargs self)(''model'' \<mapsto> py_of_model (model self))) w) of
        (Inl e, w1) \<Rightarrow>
          (Inl (Exn ValueError
             (''Failed to initialize provider '' @ [QUOTE] @ provider_name self @ [QUOTE]
              @ '': '' @ str_of e @ ''. Available providers: ''
              @ repr_str_list (factory_available_providers w1))), self, w1)
      | (Inr p, w1) \<Rightarrow> (Inr (), self\<lparr>provider := Some p\<rparr>, w1))"

text \<open>\<open>BaseAssistant.switch_provider\<close>.\<close>

definition switch_provider ::
  "platform \<Rightarrow> config_module \<Rightarrow> string \<Rightarrow> (string \<rightharpoonup> pyval) \<Rightarrow> 'a base_assistant_scheme \<Rightarrow> world
   \<Rightarrow> (exn + unit) \<times> 'a base_assistant_scheme \<times> world" where
  "switch_provider P C new_name kw self w =
     initialize_provider P C (self\<lparr>provider_name := new_name, kwargs := kwargs self ++ kw\<rparr>) w"

text \<open>
  \<open>BaseAssistant._get_completion(prompt)\<close> with no further keyword, as every caller in
  \<open>chat_python.py\<close> calls it.
\<close>

definition assistant_get_completion ::
  "platform \<Rightarrow> 'a base_assistant_scheme \<Rightarrow> string \<Rightarrow> world \<Rightarrow> (exn + string) \<times> world" where
  "assistant_get_completion P self text w =
     (case provider self of
        None \<Rightarrow>
          (Inl (Exn Exception
             (''AI completion error ('' @ provider_name self
              @ ''): NoneType object has no attribute get_completion'')), w)
      | Some p \<Rightarrow>
          (case get_completion P p text
                  [''temperature'' \<mapsto> PFloat (temperature self),
                   ''max_tokens'' \<mapsto> PInt (max_tokens self),
                   ''top_p'' \<mapsto> PFloat (top_p self)] w of
             (Inl e, w1) \<Rightarrow>
               (Inl (Exn Exception
                  (''AI completion error ('' @ provider_name self @ ''): '' @ str_of e)), w1)
           | (Inr s, w1) \<Rightarrow> (Inr s, w1)))"

text \<open>
  \<open>BaseAssistant.__init__\<close>: the configuration is read first, the model defaults to the
  provider's, then the provider is built.
\<close>

definition base_assistant_init ::
  "platform \<Rightarrow> config_module \<Rightarrow> string option \<Rightarrow> string option \<Rightarrow> real \<Rightarrow> int \<Rightarrow> real
   \<Rightarrow> (string \<rightharpoonup> pyval) \<Rightarrow> world \<Rightarrow> (exn + base_assistant) \<times> world" where
  "base_assistant_init P C name_arg model_arg temp maxtok topp kw w =
     (let name = str_or name_arg (DEFAULT_PROVIDER C) in
      case get_provider_config C (Some name) of
        Inl e \<Rightarrow> (Inl e, w)
      | Inr config \<Rightarrow>
          (let mdl = (case model_arg of
                        None \<Rightarrow> Some (default_model config)
                      | Some m \<Rightarrow> if m = [] then Some (default_model config) else Some m);
               self = \<lparr>provider_name = name, model = mdl, temperature = temp,
                       max_tokens = maxtok, top_p = topp, kwargs = kw,
                       provider_config = config, provider = None\<rparr>
           in case initialize_provider P C self w of
                (Inl e, _, w1) \<Rightarrow> (Inl e, w1)
              | (Inr _, self1, w1) \<Rightarrow> (Inr self1, w1)))"

section \<open>Code generation (\<open>ChatPython\<close> in \<open>chat_python.py\<close>)\<close>

record chat_python = base_assistant +
  generated_code :: string
  prompt :: string
  file_name :: string
  root_directory :: string

text \<open>\<open>ChatPython.__init__\<close>; \<open>cwd\<close> is the value of \<open>os.getcwd()\<close>.\<close>

definition chat_python_init ::
  "platform \<Rightarrow> config_module \<Rightarrow> string \<Rightarrow> string option \<Rightarrow> string option \<Rightarrow> real \<Rightarrow> int \<Rightarrow> real
   \<Rightarrow> (string \<rightharpoonup> pyval) \<Rightarrow> world \<Rightarrow> (exn + chat_python) \<times> world" where
  "chat_python_init P C cwd name_arg model_arg temp maxtok topp kw w =
     (case base_assistant_init P C name_arg model_arg temp maxtok topp kw w of
        (Inl e, w1) \<Rightarrow> (Inl e, w1)
      | (Inr base, w1) \<Rightarrow>
          (Inr \<lparr>provider_name = provider_name base, model = model base,
                temperature = temperature base, max_tokens = max_tokens base,
                top_p = top_p base, kwargs = kwargs base,
                provider_config = provider_config base, provider = provider base,
                generated_code = [], prompt = [], file_name = [], root_directory = cwd\<rparr>, w1))"

text \<open>\<open>ChatPython._remove_python_prefix\<close>; nothing in its \<open>try\<close> can raise.\<close>

definition remove_python_prefix :: "string \<Rightarrow> string" where
  "remove_python_prefix code0 =
     (let code = remove_char BACKTICK code0 in
      case splitlines code of
        [] \<Rightarrow> code
      | l # ls \<Rightarrow>
          if prefix ''python'' (py_strip l) then
            str_join [LF] (py_strip (drop (length ''python'') (py_strip l)) # ls)
          else code)"

definition file_name_prompt :: "string \<Rightarrow> string" where
  "file_name_prompt text =
     ''Based on the provided Python code description, generate a meaningful and contextually appropriate file ''
     @ ''name that ends with '' @ [QUOTE] @ ''.py'' @ [QUOTE]
     @ ''. The file name should reflect the primary functionality of the code. Here is ''
     @ ''the input: '' @ text"

text \<open>
  \<open>ChatPython._generate_file_name\<close>; \<open>.replace("", "")\<close> changes nothing.
\<close>

definition generate_file_name ::
  "platform \<Rightarrow> chat_python \<Rightarrow> world \<Rightarrow> (exn + string) \<times> world" where
  "generate_file_name P self w =
     (case assistant_get_completion P self (file_name_prompt (prompt self)) w of
        (Inl e, w1) \<Rightarrow> (Inl e, w1)
      | (Inr generated, w1) \<Rightarrow>
          (Inr (remove_char DQUOTE (py_strip (first_line (py_strip generated)))), w1))"

text \<open>\<open>ChatPython._write_code_to_file\<close>.\<close>

definition write_code_to_file ::
  "platform \<Rightarrow> chat_python \<Rightarrow> world \<Rightarrow> (exn + unit) \<times> chat_python \<times> world" where
  "write_code_to_file P self w =
     (case generate_file_name P self w of
        (Inl e, w1) \<Rightarrow> (Inl e, self, w1)
      | (Inr name, w1) \<Rightarrow>
          (let self1 = self\<lparr>file_name := name\<rparr>;
               full_path = os_path_join (root_directory self1) []
           in case os_makedirs full_path w1 of
                (Inl e, w2) \<Rightarrow>
                  (Inl (Exn Exception
                     (RED @ ''Cannot create directory: '' @ str_of e @ RESET)), self1, w2)
              | (Inr _, w2) \<Rightarrow>
                  (let saved_path = os_path_join full_path (file_name self1) in
                   if generated_code self1 \<noteq> [] then
                     (case write_file saved_path (generated_code self1) w2 of
                        (Inl e, w3) \<Rightarrow> (Inl e, self1, w3)
                      | (Inr _, w3) \<Rightarrow> (Inr (), self1, w3))
                   else
                     (Inl (Exn Exception (RED @ ''No code generated yet'' @ RESET)), self1, w2))))"

text \<open>
  Lines 71 to 77 of \<open>generate_code\<close>: the removal of the generated file; a failure is only
  printed.
\<close>

definition cleanup_file :: "chat_python \<Rightarrow> world \<Rightarrow> world" where
  "cleanup_file self w =
     (case os_remove (os_path_join (root_directory self) (file_name self)) w of
        (Inl e, w1) \<Rightarrow> w1
      | (Inr _, w1) \<Rightarrow> w1)"

text \<open>
  Lines 68 to 78 of \<open>generate_code\<close>, the branch taken when the code is to be run. An
  exception of \<open>_write_code_to_file\<close> or \<open>_run_generated_code\<close> leaves the method at once.
\<close>

definition write_and_run ::
  "platform \<Rightarrow> chat_python \<Rightarrow> bool \<Rightarrow> bool \<Rightarrow> world \<Rightarrow> (exn + string) \<times> chat_python \<times> world" where
  "write_and_run P self cleanup_installed_module cleanup_generated_file w =
     (case write_code_to_file P self w of
        (Inl e, self1, w1) \<Rightarrow> (Inl e, self1, w1)
      | (Inr _, self1, w1) \<Rightarrow>
          (case run_generated_code P (root_directory self1) (file_name self1)
                  cleanup_installed_module w1 of
             (Inl e, w2) \<Rightarrow> (Inl e, self1, w2)
           | (Inr output, w2) \<Rightarrow>
               (let w3 = (if cleanup_generated_file then cleanup_file self1 w2 else w2) in
                (Inr (if output \<noteq> [] then output else generated_code self1), self1, w3))))"

text \<open>
  \<open>ChatPython.generate_code(prompt_input, write_code_to_file, run_code,
  cleanup_installed_module, cleanup_generated_file)\<close>: the value returned or the exception
  raised, the object and the state afterwards.
\<close>

definition generate_code ::
  "platform \<Rightarrow> chat_python \<Rightarrow> string \<Rightarrow> bool \<Rightarrow> bool \<Rightarrow> bool \<Rightarrow> bool \<Rightarrow> world
   \<Rightarrow> (exn + string) \<times> chat_python \<times> world" where
  "generate_code P self prompt_input write_code_to_file_arg run_code_arg
       cleanup_installed_module cleanup_generated_file w =
     (let run_code = (if \<not> write_code_to_file_arg then False else run_code_arg) in
      case generate_code_prompt P prompt_input of
        Inl e \<Rightarrow> (Inl e, self, w)
      | Inr text \<Rightarrow>
          (let self1 = self\<lparr>prompt := text\<rparr> in
           case assistant_get_completion P self1 text w of
             (Inl e, w1) \<Rightarrow> (Inl e, self1, w1)
           | (Inr completion, w1) \<Rightarrow>
               (let self2 = self1\<lparr>generated_code := remove_python_prefix completion\<rparr> in
                if run_code then
                  write_and_run P self2 cleanup_installed_module cleanup_generated_file w1
                else (Inr (generated_code self2), self2, w1))))"

section \<open>Observing a run\<close>

text \<open>The child processes started between two states.\<close>

definition started_since :: "world \<Rightarrow> world \<Rightarrow> string list list" where
  "started_since w w' = drop (length (proc_log w)) (proc_log w')"

text \<open>An argument vector of the form \<open>[exe, "-m", "pip", "install", module]\<close>.\<close>

fun is_pip_install :: "string list \<Rightarrow> bool" where
  "is_pip_install [exe, a, b, c, m] = (a = ''-m'' \<and> b = ''pip'' \<and> c = ''install'')"
| "is_pip_install _ = False"

section \<open>Concrete environments\<close>

text \<open>
  Children that return the given results in turn and leave the files alone, and an upstream
  service that answers the given texts in turn.
\<close>

definition scripted ::
  "(exn + completed_process) list \<Rightarrow> string list list \<Rightarrow> (string \<rightharpoonup> string) \<Rightarrow> string list
   \<Rightarrow> (exn + completed_process) \<times> (string \<rightharpoonup> string)" where
  "scripted rs hist fs argv =
     (if length hist < length rs then (rs ! length hist, fs)
      else (Inr \<lparr>returncode = 0, stdout = [], stderr = []\<rparr>, fs))"

definition replies ::
  "string list \<Rightarrow> (client \<times> (string \<rightharpoonup> pyval)) list \<Rightarrow> client \<Rightarrow> (string \<rightharpoonup> pyval)
   \<Rightarrow> exn + chat_response" where
  "replies xs hist c params =
     (if length hist < length xs then Inr (ChatCompletion [Some (xs ! length hist)])
      else Inl (Exn APIError ''no reply''))"

definition test_platform :: "(exn + completed_process) list \<Rightarrow> string list \<Rightarrow> platform" where
  "test_platform rs xs =
     \<lparr>sys_executable = ''/usr/bin/python3'', spawn = scripted rs, chat_create = replies xs,
      groq_available = True, openai_available = True,
      environ = [''GROQ_API_KEY'' \<mapsto> ''gsk'', ''OPENAI_API_KEY'' \<mapsto> ''sk''],
      generate_code_prompt = (\<lambda>p. Inr (''Write Python code: '' @ p))\<rparr>"

definition world0 :: world where
  "world0 = \<lparr>files = Map.empty, refused = {}, proc_log = [], api_log = [], next_client_id = 0,
             providers_registry = initial_registry\<rparr>"

text \<open>The state \<open>world0\<close> with one file, \<open>/tmp/a.py\<close>.\<close>

definition world1 :: world where
  "world1 = world0\<lparr>files := [''/tmp/a.py'' \<mapsto> ''import foo'']\<rparr>"

text \<open>Results of child processes used in the concrete runs.\<close>

definition boom :: completed_process where
  "boom = \<lparr>returncode = 1, stdout = [], stderr = ''NameError: boom''\<rparr>"

definition missing_foo :: completed_process where
  "missing_foo =
     \<lparr>returncode = 1, stdout = [],
      stderr = ''ModuleNotFoundError: No module named '' @ [QUOTE] @ ''foo'' @ [QUOTE]\<rparr>"

definition import_error_foo :: completed_process where
  "import_error_foo =
     \<lparr>returncode = 1, stdout = [],
      stderr = ''ImportError: No module named '' @ [QUOTE] @ ''foo'' @ [QUOTE]\<rparr>"

definition pip_ok :: completed_process where
  "pip_ok = \<lparr>returncode = 0, stdout = ''Successfully installed foo'', stderr = []\<rparr>"

definition hello :: completed_process where
  "hello = \<lparr>returncode = 0, stdout = ''hello'', stderr = []\<rparr>"

definition silent :: completed_process where
  "silent = \<lparr>returncode = 0, stdout = [], stderr = []\<rparr>"

text \<open>
  The text a stream carries: the content of the first choice of each chunk, in order
  (nothing for a chunk without a choice or with an absent content).
\<close>

fun chunk_text :: "string option list \<Rightarrow> string" where
  "chunk_text [] = []"
| "chunk_text (None # _) = []"
| "chunk_text (Some s # _) = s"

definition stream_text :: "string option list list \<Rightarrow> string" where
  "stream_text chunks = concat (map chunk_text chunks)"

text \<open>
  An upstream service that answers every request with the same text: as the content of one
  message when \<open>stream\<close> is not \<open>True\<close>, and cut into the given content deltas, one chunk
  each, when it is.
\<close>

definition same_text_upstream ::
  "string option list \<Rightarrow> (client \<times> (string \<rightharpoonup> pyval)) list \<Rightarrow> client \<Rightarrow> (string \<rightharpoonup> pyval)
   \<Rightarrow> exn + chat_response" where
  "same_text_upstream deltas hist c params =
     (if params ''stream'' = Some (PBool True) then
        Inr (ChatStream (map (\<lambda>d. [d]) deltas) None)
      else Inr (ChatCompletion [Some (stream_text (map (\<lambda>d. [d]) deltas))]))"

definition streaming_platform :: "string option list \<Rightarrow> platform" where
  "streaming_platform deltas = (test_platform [] [])\<lparr>chat_create := same_text_upstream deltas\<rparr>"

text \<open>A provider object of class \<open>GroqProvider\<close>.\<close>

definition groq0 :: provider where
  "groq0 = \<lparr>p_class = GroqProvider, p_api_key = ''gsk'',
            p_model = PStr ''llama-3.1-70b-versatile'', p_kwargs = Map.empty,
            p_client = \<lparr>sdk = GroqProvider, client_api_key = ''gsk'', client_id = 0\<rparr>\<rparr>"

text \<open>
  The module variables of \<open>config.py\<close> when both keys are set and when only the Groq key
  is.
\<close>

definition config0 :: config_module where
  "config0 = \<lparr>API_KEYS = [(''groq'', ''gsk''), (''openai'', ''sk'')], DEFAULT_PROVIDER = ''groq''\<rparr>"

definition config_groq_only :: config_module where
  "config_groq_only = \<lparr>API_KEYS = [(''groq'', ''gsk'')], DEFAULT_PROVIDER = ''groq''\<rparr>"

text \<open>
  A \<open>ChatPython\<close> object as its constructor leaves it (provider \<open>groq\<close>, default model),
  with \<open>/tmp\<close> as the working directory.
\<close>

definition chat0 :: chat_python where
  "chat0 =
     \<lparr>provider_name = ''groq'', model = Some ''llama-3.1-70b-versatile'', temperature = 1 / 2,
      max_tokens = 1000, top_p = 1, kwargs = Map.empty,
      provider_config =
        \<lparr>api_key_env = ''GROQ_API_KEY'', default_model = ''llama-3.1-70b-versatile'',
         base_url = ''https://api.groq.com/openai/v1'', client_class = ''GroqClient'',
         api_key = ''gsk''\<rparr>,
      provider = Some groq0,
      generated_code = [], prompt = [], file_name = [], root_directory = ''/tmp''\<rparr>"

text \<open>A completion in a Markdown fence, as the model usually answers.\<close>

definition fenced_code :: string where
  "fenced_code =
     [BACKTICK, BACKTICK, BACKTICK] @ ''python'' @ [LF] @ ''print(1)'' @ [LF]
     @ [BACKTICK, BACKTICK, BACKTICK]"

section \<open>Facts about strings and the pattern\<close>

lemma str_contains_prefix: "prefix sub s \<Longrightarrow> str_contains s sub"
  by (cases s) auto

lemma str_contains_append: "str_contains (a @ s @ b) s"
  by (induction a) (simp_all add: str_contains_prefix)

lemma run_script_no_match:
  assumes "spawn P (proc_log w) (files w) (run_argv P full_path) = (Inr r, fs)"
      and "returncode r \<noteq> 0"
      and "re_search_no_module (stderr r) = None"
  shows "run_script P full_path cleanup w =
           (Inl (Exn Exception (RED @ ''Script error:'' @ [LF] @ stderr r @ RESET)),
            w\<lparr>files := fs, proc_log := proc_log w @ [run_argv P full_path]\<rparr>)"
  using assms by (simp add: run_script_def subprocess_run_def)

lemma run_script_match:
  assumes "spawn P (proc_log w) (files w) (run_argv P full_path) = (Inr r, fs)"
      and "returncode r \<noteq> 0"
      and "str_contains (stderr r) ''ModuleNotFoundError''"
      and "re_search_no_module (stderr r) = Some m"
  shows "run_script P full_path cleanup w =
           install_and_rerun P full_path cleanup m
             (w\<lparr>files := fs, proc_log := proc_log w @ [run_argv P full_path]\<rparr>)"
  using assms by (simp add: run_script_def subprocess_run_def)

lemma install_and_rerun_fails_again:
  assumes "spawn P (proc_log w) (files w) (install_argv P m) = (Inr ri, fs2)"
      and "returncode ri = 0"
      and "spawn P (proc_log w @ [install_argv P m]) fs2 (run_argv P full_path) = (Inr r2, fs3)"
      and "returncode r2 \<noteq> 0"
  shows "install_and_rerun P full_path cleanup m w =
           (Inl (Exn Exception
              (RED @ ''Error after installing '' @ m @ '':'' @ RESET @ [LF] @ stderr r2)),
            w\<lparr>files := fs3, proc_log := proc_log w @ [install_argv P m, run_argv P full_path]\<rparr>)"
  using assms by (simp add: install_and_rerun_def subprocess_run_def)

lemma install_and_rerun_succeeds:
  assumes "spawn P (proc_log w) (files w) (install_argv P m) = (Inr ri, fs2)"
      and "returncode ri = 0"
      and "spawn P (proc_log w @ [install_argv P m]) fs2 (run_argv P full_path) = (Inr r2, fs3)"
      and "returncode r2 = 0"
  shows "\<not> cleanup \<Longrightarrow> install_and_rerun P full_path cleanup m w =
           (Inr (stdout r2),
            w\<lparr>files := fs3, proc_log := proc_log w @ [install_argv P m, run_argv P full_path]\<rparr>)"
    and "cleanup \<Longrightarrow>
         spawn P (proc_log w @ [install_argv P m, run_argv P full_path]) fs3 (uninstall_argv P m)
           = (Inr ru, fs4) \<Longrightarrow>
         install_and_rerun P full_path cleanup m w =
           (Inr (stdout r2),
            w\<lparr>files := fs4,
              proc_log := proc_log w @ [install_argv P m, run_argv P full_path, uninstall_argv P m]\<rparr>)"
  using assms by (simp_all add: install_and_rerun_def subprocess_run_def)


lemma install_and_rerun_log:
  "\<exists>tl. proc_log (snd (install_and_rerun P fp c m w)) = proc_log w @ install_argv P m # tl
        \<and> filter is_pip_install tl = []"
  by (auto simp: install_and_rerun_def subprocess_run_def run_argv_def uninstall_argv_def
           split: prod.splits sum.splits)

lemma run_script_log:
  "\<exists>tl. proc_log (snd (run_script P fp c w)) = proc_log w @ run_argv P fp # tl
        \<and> length (filter is_pip_install tl) \<le> 1"
proof -
  obtain r fs where sp: "spawn P (proc_log w) (files w) (run_argv P fp) = (r, fs)"
    by (cases "spawn P (proc_log w) (files w) (run_argv P fp)")
  let ?w1 = "w\<lparr>files := fs, proc_log := proc_log w @ [run_argv P fp]\<rparr>"
  have inst: "\<exists>tl. proc_log (snd (install_and_rerun P fp c m ?w1)) = proc_log w @ run_argv P fp # tl
        \<and> length (filter is_pip_install tl) \<le> 1" for m
  proof -
    obtain tl where "proc_log (snd (install_and_rerun P fp c m ?w1)) = proc_log ?w1 @ install_argv P m # tl"
      and "filter is_pip_install tl = []"
      using install_and_rerun_log [of P fp c m ?w1] by blast
    then show ?thesis by (simp add: install_argv_def)
  qed
  show ?thesis
    using sp inst
    by (auto simp: run_script_def subprocess_run_def split: sum.splits option.splits)
qed

lemma run_generated_code_installs:
  "length (filter is_pip_install
     (started_since w (snd (run_generated_code P root_dir fname cleanup w)))) \<le> 1"
proof (cases "os_path_exists w (os_path_join root_dir fname)")
  case False
  then show ?thesis by (simp add: run_generated_code_def started_since_def)
next
  case True
  obtain tl where "proc_log (snd (run_script P (os_path_join root_dir fname) cleanup w))
      = proc_log w @ run_argv P (os_path_join root_dir fname) # tl"
    and "length (filter is_pip_install tl) \<le> 1"
    using run_script_log by blast
  with True show ?thesis
    by (auto simp: run_generated_code_def started_since_def run_argv_def Let_def
             split: prod.splits sum.splits)
qed

lemma match_here_sound:
  assumes "match_here s = Some m"
  shows "\<exists>rest. s = NO_MODULE @ m @ QUOTE # rest" and "m \<noteq> []" and "QUOTE \<notin> set m"
proof -
  from assms have pre: "prefix NO_MODULE s"
    by (auto simp: match_here_def split: if_splits)
  then obtain r where s: "s = NO_MODULE @ r" by (auto simp: prefix_def)
  from assms s have m: "m = takeWhile (\<lambda>c. c \<noteq> QUOTE) r"
    and ne: "m \<noteq> []" and dw: "dropWhile (\<lambda>c. c \<noteq> QUOTE) r \<noteq> []"
    by (auto simp: match_here_def Let_def split: if_splits)
  from dw have "hd (dropWhile (\<lambda>c. c \<noteq> QUOTE) r) = QUOTE"
    using hd_dropWhile [of "\<lambda>c. c \<noteq> QUOTE" r] by auto
  with dw obtain rest where "dropWhile (\<lambda>c. c \<noteq> QUOTE) r = QUOTE # rest"
    by (cases "dropWhile (\<lambda>c. c \<noteq> QUOTE) r") auto
  then have "r = m @ QUOTE # rest"
    using takeWhile_dropWhile_id [of "\<lambda>c. c \<noteq> QUOTE" r] m by simp
  with s show "\<exists>rest. s = NO_MODULE @ m @ QUOTE # rest" by auto
  show "m \<noteq> []" by (rule ne)
  show "QUOTE \<notin> set m" using m by (auto dest: set_takeWhileD)
qed

lemma re_search_no_module_sound:
  "re_search_no_module s = Some m \<Longrightarrow>
     str_contains s (NO_MODULE @ m @ [QUOTE]) \<and> m \<noteq> [] \<and> QUOTE \<notin> set m"
proof (induction s)
  case Nil
  then show ?case by simp
next
  case (Cons c cs)
  show ?case
  proof (cases "match_here (c # cs)")
    case None
    with Cons show ?thesis by simp
  next
    case (Some n)
    with Cons.prems have nm: "n = m" by simp
    from match_here_sound [OF Some] nm obtain rest where
      "c # cs = NO_MODULE @ m @ QUOTE # rest" and "m \<noteq> []" and "QUOTE \<notin> set m" by auto
    then have "prefix (NO_MODULE @ m @ [QUOTE]) (c # cs)" by (simp add: prefix_def)
    with \<open>m \<noteq> []\<close> \<open>QUOTE \<notin> set m\<close> show ?thesis by simp
  qed
qed

lemma match_here_complete:
  assumes "prefix (NO_MODULE @ foo @ [QUOTE]) s" and "foo \<noteq> []" and "QUOTE \<notin> set foo"
  shows "match_here s = Some foo"
proof -
  from assms(1) obtain t where s: "s = NO_MODULE @ foo @ QUOTE # t" by (auto simp: prefix_def)
  have tw: "takeWhile (\<lambda>c. c \<noteq> QUOTE) (foo @ QUOTE # t) = foo"
    using assms(3) by (induction foo) auto
  have dw: "dropWhile (\<lambda>c. c \<noteq> QUOTE) (foo @ QUOTE # t) = QUOTE # t"
    using assms(3) by (induction foo) auto
  show ?thesis
    using assms(2) by (simp add: match_here_def s tw dw Let_def)
qed

lemma re_search_no_module_complete:
  "str_contains s (NO_MODULE @ foo @ [QUOTE]) \<Longrightarrow> foo \<noteq> [] \<Longrightarrow> QUOTE \<notin> set foo \<Longrightarrow>
     re_search_no_module s \<noteq> None"
proof (induction s)
  case Nil
  then show ?case by simp
next
  case (Cons c cs)
  show ?case
  proof (cases "prefix (NO_MODULE @ foo @ [QUOTE]) (c # cs)")
    case True
    from match_here_complete [OF True Cons.prems(2,3)] show ?thesis by simp
  next
    case False
    with Cons show ?thesis by (auto split: option.splits)
  qed
qed


section \<open>Claims about the execution loop\<close>

text \<open>
  Claim C4. When the first run of the script fails and its error stream has no match of the
  missing-module pattern, \<open>_run_generated_code\<close> raises an exception whose message carries
  that error stream, and no \<open>pip install\<close> process is started: the only child process is
  the run of the script.
\<close>

theorem unmatched_failure_is_reported:
  assumes "os_path_exists w (os_path_join root_dir fname)"
      and "spawn P (proc_log w) (files w) (run_argv P (os_path_join root_dir fname)) = (Inr r, fs)"
      and "returncode r \<noteq> 0"
      and "re_search_no_module (stderr r) = None"
  shows "run_generated_code P root_dir fname cleanup w =
           (Inl (Exn Exception
              (RED @ ''Cannot run code: '' @ RED @ ''Script error:'' @ [LF] @ stderr r
               @ RESET @ RESET)),
            w\<lparr>files := fs, proc_log := proc_log w @ [run_argv P (os_path_join root_dir fname)]\<rparr>)
         \<and> str_contains
              (RED @ ''Cannot run code: '' @ RED @ ''Script error:'' @ [LF] @ stderr r
               @ RESET @ RESET) (stderr r)
         \<and> filter is_pip_install
              (started_since w (snd (run_generated_code P root_dir fname cleanup w))) = []"
proof -
  have run: "run_generated_code P root_dir fname cleanup w =
           (Inl (Exn Exception
              (RED @ ''Cannot run code: '' @ RED @ ''Script error:'' @ [LF] @ stderr r @ RESET @ RESET)),
            w\<lparr>files := fs, proc_log := proc_log w @ [run_argv P (os_path_join root_dir fname)]\<rparr>)"
    using assms(1) run_script_no_match [OF assms(2-4)]
    by (simp add: run_generated_code_def Let_def)
  have shown: "str_contains
      (RED @ ''Cannot run code: '' @ RED @ ''Script error:'' @ [LF] @ stderr r @ RESET @ RESET)
      (stderr r)"
    using str_contains_append
      [of "RED @ ''Cannot run code: '' @ RED @ ''Script error:'' @ [LF]" "stderr r" "RESET @ RESET"]
    by simp
  show ?thesis
    using shown by (simp add: run started_since_def run_argv_def)
qed

text \<open>Claim C4 on a script that fails with a \<open>NameError\<close>.\<close>

theorem unmatched_failure_is_reported_witness:
  "os_path_exists world1 (os_path_join ''/tmp'' ''a.py'')
   \<and> returncode boom \<noteq> 0
   \<and> re_search_no_module (stderr boom) = None
   \<and> fst (run_generated_code (test_platform [Inr boom] []) ''/tmp'' ''a.py'' True world1) =
       Inl (Exn Exception
         (RED @ ''Cannot run code: '' @ RED @ ''Script error:'' @ [LF] @ ''NameError: boom''
          @ RESET @ RESET))
   \<and> proc_log (snd (run_generated_code (test_platform [Inr boom] []) ''/tmp'' ''a.py'' True world1))
       = [[''/usr/bin/python3'', ''/tmp/a.py'']]"
proof -
  let ?P = "test_platform [Inr boom] []"
  have h1: "os_path_exists world1 (os_path_join ''/tmp'' ''a.py'')"
    by (simp add: os_path_exists_def os_path_join_def world1_def world0_def)
  have h2: "spawn ?P (proc_log world1) (files world1) (run_argv ?P (os_path_join ''/tmp'' ''a.py''))
      = (Inr boom, files world1)"
    by (simp add: test_platform_def scripted_def world1_def world0_def)
  have h3: "returncode boom \<noteq> 0" by (simp add: boom_def)
  have h4: "re_search_no_module (stderr boom) = None"
    by (simp add: boom_def match_here_def NO_MODULE_def)
  from unmatched_failure_is_reported [OF h1 h2 h3 h4, of True] h1 h3 h4
  show ?thesis
    by (simp add: boom_def run_argv_def os_path_join_def test_platform_def world1_def world0_def)
qed

text \<open>
  Claim C3. One call of \<open>_run_generated_code\<close> starts at most one \<open>pip install\<close> process,
  whatever the children do. When the run after a successful install fails again, the call
  raises an exception whose message carries the error stream of that second run, and the
  children started are the first run, the install and the second run, in this order:
  no second install, also when the second error stream matches the pattern again.
\<close>

theorem at_most_one_install:
  "length (filter is_pip_install
     (started_since w (snd (run_generated_code P root_dir fname cleanup w)))) \<le> 1
   \<and> (os_path_exists w (os_path_join root_dir fname) \<longrightarrow>
      spawn P (proc_log w) (files w) (run_argv P (os_path_join root_dir fname)) = (Inr r1, fs1) \<longrightarrow>
      returncode r1 \<noteq> 0 \<longrightarrow>
      str_contains (stderr r1) ''ModuleNotFoundError'' \<longrightarrow>
      re_search_no_module (stderr r1) = Some m \<longrightarrow>
      spawn P (proc_log w @ [run_argv P (os_path_join root_dir fname)]) fs1 (install_argv P m)
        = (Inr ri, fs2) \<longrightarrow>
      returncode ri = 0 \<longrightarrow>
      spawn P (proc_log w @ [run_argv P (os_path_join root_dir fname), install_argv P m]) fs2
        (run_argv P (os_path_join root_dir fname)) = (Inr r2, fs3) \<longrightarrow>
      returncode r2 \<noteq> 0 \<longrightarrow>
        run_generated_code P root_dir fname cleanup w =
          (Inl (Exn Exception
             (RED @ ''Cannot run code: '' @ RED @ ''Error after installing '' @ m @ '':''
              @ RESET @ [LF] @ stderr r2 @ RESET)),
           w\<lparr>files := fs3,
             proc_log := proc_log w @ [run_argv P (os_path_join root_dir fname), install_argv P m,
                                       run_argv P (os_path_join root_dir fname)]\<rparr>))"
proof (intro conjI impI)
  show "length (filter is_pip_install
     (started_since w (snd (run_generated_code P root_dir fname cleanup w)))) \<le> 1"
    by (rule run_generated_code_installs)
next
  let ?full = "os_path_join root_dir fname"
  let ?w1 = "w\<lparr>files := fs1, proc_log := proc_log w @ [run_argv P ?full]\<rparr>"
  assume ex: "os_path_exists w ?full"
    and first: "spawn P (proc_log w) (files w) (run_argv P ?full) = (Inr r1, fs1)"
    and rc1: "returncode r1 \<noteq> 0"
    and mnf: "str_contains (stderr r1) ''ModuleNotFoundError''"
    and re: "re_search_no_module (stderr r1) = Some m"
    and inst: "spawn P (proc_log w @ [run_argv P ?full]) fs1 (install_argv P m) = (Inr ri, fs2)"
    and rci: "returncode ri = 0"
    and again: "spawn P (proc_log w @ [run_argv P ?full, install_argv P m]) fs2 (run_argv P ?full)
        = (Inr r2, fs3)"
    and rc2: "returncode r2 \<noteq> 0"
  have step1: "run_script P ?full cleanup w = install_and_rerun P ?full cleanup m ?w1"
    by (rule run_script_match [OF first rc1 mnf re])
  have step2: "install_and_rerun P ?full cleanup m ?w1 =
      (Inl (Exn Exception
         (RED @ ''Error after installing '' @ m @ '':'' @ RESET @ [LF] @ stderr r2)),
       ?w1\<lparr>files := fs3, proc_log := proc_log ?w1 @ [install_argv P m, run_argv P ?full]\<rparr>)"
    using install_and_rerun_fails_again [of P ?w1 m ri fs2 ?full r2 fs3 cleanup]
      inst rci again rc2
    by simp
  show "run_generated_code P root_dir fname cleanup w =
          (Inl (Exn Exception
             (RED @ ''Cannot run code: '' @ RED @ ''Error after installing '' @ m @ '':''
              @ RESET @ [LF] @ stderr r2 @ RESET)),
           w\<lparr>files := fs3,
             proc_log := proc_log w @ [run_argv P ?full, install_argv P m, run_argv P ?full]\<rparr>)"
    using ex by (simp add: run_generated_code_def Let_def step1 step2)
qed

text \<open>
  Claim C3 on a script whose second run reports the same missing module as the first.
\<close>

theorem at_most_one_install_witness:
  "os_path_exists world1 (os_path_join ''/tmp'' ''a.py'')
   \<and> returncode missing_foo \<noteq> 0
   \<and> str_contains (stderr missing_foo) ''ModuleNotFoundError''
   \<and> re_search_no_module (stderr missing_foo) = Some ''foo''
   \<and> returncode pip_ok = 0
   \<and> fst (run_generated_code (test_platform [Inr missing_foo, Inr pip_ok, Inr missing_foo] [])
            ''/tmp'' ''a.py'' True world1) =
       Inl (Exn Exception
         (RED @ ''Cannot run code: '' @ RED @ ''Error after installing foo:'' @ RESET @ [LF]
          @ stderr missing_foo @ RESET))
   \<and> proc_log (snd (run_generated_code
            (test_platform [Inr missing_foo, Inr pip_ok, Inr missing_foo] [])
            ''/tmp'' ''a.py'' True world1))
       = [[''/usr/bin/python3'', ''/tmp/a.py''],
          [''/usr/bin/python3'', ''-m'', ''pip'', ''install'', ''foo''],
          [''/usr/bin/python3'', ''/tmp/a.py'']]"
proof -
  let ?P = "test_platform [Inr missing_foo, Inr pip_ok, Inr missing_foo] []"
  let ?full = "os_path_join ''/tmp'' ''a.py''"
  have h1: "os_path_exists world1 ?full"
    by (simp add: os_path_exists_def os_path_join_def world1_def world0_def)
  have h2: "spawn ?P (proc_log world1) (files world1) (run_argv ?P ?full)
      = (Inr missing_foo, files world1)"
    by (simp add: test_platform_def scripted_def world1_def world0_def)
  have h3: "returncode missing_foo \<noteq> 0" by (simp add: missing_foo_def)
  have h4: "str_contains (stderr missing_foo) ''ModuleNotFoundError''"
    by (simp add: missing_foo_def)
  have h5: "re_search_no_module (stderr missing_foo) = Some ''foo''"
    by (simp add: missing_foo_def match_here_def NO_MODULE_def QUOTE_def)
  have h6: "spawn ?P (proc_log world1 @ [run_argv ?P ?full]) (files world1) (install_argv ?P ''foo'')
      = (Inr pip_ok, files world1)"
    by (simp add: test_platform_def scripted_def world1_def world0_def)
  have h7: "returncode pip_ok = 0" by (simp add: pip_ok_def)
  have h8: "spawn ?P (proc_log world1 @ [run_argv ?P ?full, install_argv ?P ''foo'']) (files world1)
      (run_argv ?P ?full) = (Inr missing_foo, files world1)"
    by (simp add: test_platform_def scripted_def world1_def world0_def)
  from at_most_one_install [of world1 ?P "''/tmp''" "''a.py''" True missing_foo "files world1"
      "''foo''" pip_ok "files world1" missing_foo "files world1"]
    h1 h2 h3 h4 h5 h6 h7 h8
  have "run_generated_code ?P ''/tmp'' ''a.py'' True world1 =
          (Inl (Exn Exception
             (RED @ ''Cannot run code: '' @ RED @ ''Error after installing '' @ ''foo'' @ '':''
              @ RESET @ [LF] @ stderr missing_foo @ RESET)),
           world1\<lparr>files := files world1,
             proc_log := proc_log world1 @ [run_argv ?P ?full, install_argv ?P ''foo'',
                                       run_argv ?P ?full]\<rparr>)"
    by blast
  with h1 h3 h4 h5 h7 show ?thesis
    by (simp add: run_argv_def install_argv_def os_path_join_def test_platform_def
                  world1_def world0_def)
qed


text \<open>
  Claim C2 as stated fails: an error stream with the text \<open>No module named 'foo'\<close> but
  without the word \<open>ModuleNotFoundError\<close> (here an \<open>ImportError\<close>) is a plain script
  error. Nothing is installed and the script is not run again, although the install and
  the second run would have succeeded.
\<close>

theorem import_error_is_not_healed:
  "os_path_exists world1 (os_path_join ''/tmp'' ''a.py'')
   \<and> spawn (test_platform [Inr import_error_foo, Inr pip_ok, Inr hello] []) (proc_log world1)
        (files world1)
        (run_argv (test_platform [Inr import_error_foo, Inr pip_ok, Inr hello] [])
           (os_path_join ''/tmp'' ''a.py''))
       = (Inr import_error_foo, files world1)
   \<and> returncode import_error_foo \<noteq> 0
   \<and> str_contains (stderr import_error_foo) (''No module named '' @ [QUOTE] @ ''foo'' @ [QUOTE])
   \<and> fst (run_generated_code (test_platform [Inr import_error_foo, Inr pip_ok, Inr hello] [])
            ''/tmp'' ''a.py'' True world1) =
       Inl (Exn Exception
         (RED @ ''Cannot run code: '' @ RED @ ''Script error:'' @ [LF] @ stderr import_error_foo
          @ RESET @ RESET))
   \<and> started_since world1
        (snd (run_generated_code (test_platform [Inr import_error_foo, Inr pip_ok, Inr hello] [])
            ''/tmp'' ''a.py'' True world1))
       = [[''/usr/bin/python3'', ''/tmp/a.py'']]"
  by (simp add: run_generated_code_def run_script_def subprocess_run_def started_since_def
        os_path_exists_def os_path_join_def run_argv_def test_platform_def scripted_def
        world1_def world0_def import_error_foo_def QUOTE_def Let_def)

text \<open>
  Claim C2, amended. When the first run fails, its error stream contains
  \<open>ModuleNotFoundError\<close> and the first match of the pattern names \<open>foo\<close> (so the stream
  contains \<open>No module named 'foo'\<close>), the installer exits with 0 and the second run exits
  with 0, then \<open>_run_generated_code\<close> returns the standard output of the second run. The
  children started are the first run, \<open>pip install foo\<close>, the second run and, when
  \<open>cleanup_installed_module\<close> is set, \<open>pip uninstall foo -y\<close> (which must have started,
  whatever it returns): the script is re-executed exactly once.
\<close>

theorem missing_module_is_installed:
  assumes "os_path_exists w (os_path_join root_dir fname)"
      and "spawn P (proc_log w) (files w) (run_argv P (os_path_join root_dir fname)) = (Inr r1, fs1)"
      and "returncode r1 \<noteq> 0"
      and "str_contains (stderr r1) ''ModuleNotFoundError''"
      and "re_search_no_module (stderr r1) = Some foo"
      and "spawn P (proc_log w @ [run_argv P (os_path_join root_dir fname)]) fs1 (install_argv P foo)
             = (Inr ri, fs2)"
      and "returncode ri = 0"
      and "spawn P (proc_log w @ [run_argv P (os_path_join root_dir fname), install_argv P foo]) fs2
             (run_argv P (os_path_join root_dir fname)) = (Inr r2, fs3)"
      and "returncode r2 = 0"
      and "cleanup \<Longrightarrow>
           spawn P (proc_log w @ [run_argv P (os_path_join root_dir fname), install_argv P foo,
                                  run_argv P (os_path_join root_dir fname)]) fs3
             (uninstall_argv P foo) = (Inr ru, fs4)"
  shows "fst (run_generated_code P root_dir fname cleanup w) = Inr (stdout r2)
       \<and> started_since w (snd (run_generated_code P root_dir fname cleanup w)) =
           [run_argv P (os_path_join root_dir fname), install_argv P foo,
            run_argv P (os_path_join root_dir fname)]
           @ (if cleanup then [uninstall_argv P foo] else [])
       \<and> str_contains (stderr r1) (''No module named '' @ [QUOTE] @ foo @ [QUOTE])"
proof -
  let ?full = "os_path_join root_dir fname"
  let ?w1 = "w\<lparr>files := fs1, proc_log := proc_log w @ [run_argv P ?full]\<rparr>"
  have step1: "run_script P ?full cleanup w = install_and_rerun P ?full cleanup foo ?w1"
    by (rule run_script_match [OF assms(2-5)])
  have named: "str_contains (stderr r1) (''No module named '' @ [QUOTE] @ foo @ [QUOTE])"
    using re_search_no_module_sound [OF assms(5)] by (simp add: NO_MODULE_def)
  show ?thesis
  proof (cases cleanup)
    case False
    have "install_and_rerun P ?full cleanup foo ?w1 =
        (Inr (stdout r2),
         ?w1\<lparr>files := fs3, proc_log := proc_log ?w1 @ [install_argv P foo, run_argv P ?full]\<rparr>)"
      using install_and_rerun_succeeds(1) [of P ?w1 foo ri fs2 ?full r2 fs3 cleanup]
        assms(6-9) False
      by simp
    with assms(1) False named step1 show ?thesis
      by (simp add: run_generated_code_def Let_def started_since_def)
  next
    case True
    have "install_and_rerun P ?full cleanup foo ?w1 =
        (Inr (stdout r2),
         ?w1\<lparr>files := fs4,
             proc_log := proc_log ?w1 @ [install_argv P foo, run_argv P ?full, uninstall_argv P foo]\<rparr>)"
      using install_and_rerun_succeeds(2) [of P ?w1 foo ri fs2 ?full r2 fs3 cleanup ru fs4]
        assms(6-9) assms(10) [OF True] True
      by simp
    with assms(1) True named step1 show ?thesis
      by (simp add: run_generated_code_def Let_def started_since_def)
  qed
qed

text \<open>
  Claim C2, amended, on a script that prints \<open>hello\<close> once \<open>foo\<close> is installed.
\<close>

theorem missing_module_is_installed_witness:
  "os_path_exists world1 (os_path_join ''/tmp'' ''a.py'')
   \<and> returncode missing_foo \<noteq> 0
   \<and> str_contains (stderr missing_foo) ''ModuleNotFoundError''
   \<and> re_search_no_module (stderr missing_foo) = Some ''foo''
   \<and> returncode pip_ok = 0
   \<and> returncode hello = 0
   \<and> fst (run_generated_code (test_platform [Inr missing_foo, Inr pip_ok, Inr hello] [])
            ''/tmp'' ''a.py'' True world1) = Inr ''hello''
   \<and> started_since world1
        (snd (run_generated_code (test_platform [Inr missing_foo, Inr pip_ok, Inr hello] [])
            ''/tmp'' ''a.py'' True world1))
       = [[''/usr/bin/python3'', ''/tmp/a.py''],
          [''/usr/bin/python3'', ''-m'', ''pip'', ''install'', ''foo''],
          [''/usr/bin/python3'', ''/tmp/a.py''],
          [''/usr/bin/python3'', ''-m'', ''pip'', ''uninstall'', ''foo'', ''-y'']]"
proof -
  let ?P = "test_platform [Inr missing_foo, Inr pip_ok, Inr hello] []"
  let ?full = "os_path_join ''/tmp'' ''a.py''"
  have h1: "os_path_exists world1 ?full"
    by (simp add: os_path_exists_def os_path_join_def world1_def world0_def)
  have h2: "spawn ?P (proc_log world1) (files world1) (run_argv ?P ?full)
      = (Inr missing_foo, files world1)"
    by (simp add: test_platform_def scripted_def world1_def world0_def)
  have h3: "returncode missing_foo \<noteq> 0" by (simp add: missing_foo_def)
  have h4: "str_contains (stderr missing_foo) ''ModuleNotFoundError''"
    by (simp add: missing_foo_def)
  have h5: "re_search_no_module (stderr missing_foo) = Some ''foo''"
    by (simp add: missing_foo_def match_here_def NO_MODULE_def QUOTE_def)
  have h6: "spawn ?P (proc_log world1 @ [run_argv ?P ?full]) (files world1) (install_argv ?P ''foo'')
      = (Inr pip_ok, files world1)"
    by (simp add: test_platform_def scripted_def world1_def world0_def)
  have h7: "returncode pip_ok = 0" by (simp add: pip_ok_def)
  have h8: "spawn ?P (proc_log world1 @ [run_argv ?P ?full, install_argv ?P ''foo'']) (files world1)
      (run_argv ?P ?full) = (Inr hello, files world1)"
    by (simp add: test_platform_def scripted_def world1_def world0_def)
  have h9: "returncode hello = 0" by (simp add: hello_def)
  have h10: "spawn ?P (proc_log world1 @ [run_argv ?P ?full, install_argv ?P ''foo'',
      run_argv ?P ?full]) (files world1) (uninstall_argv ?P ''foo'')
      = (Inr \<lparr>returncode = 0, stdout = [], stderr = []\<rparr>, files world1)"
    by (simp add: test_platform_def scripted_def world1_def world0_def)
  from missing_module_is_installed [OF h1 h2 h3 h4 h5 h6 h7 h8 h9 h10] h1 h3 h4 h5 h7 h9
  show ?thesis
    by (simp add: hello_def run_argv_def install_argv_def uninstall_argv_def os_path_join_def
                  test_platform_def)
qed

section \<open>Claims about the providers\<close>

lemma stream_deltas_text:
  "[] \<notin> set chunks \<Longrightarrow>
     snd (stream_deltas chunks None) = None
     \<and> concat (fst (stream_deltas chunks None)) = stream_text chunks"
proof (induction chunks)
  case Nil
  show ?case by (simp add: stream_text_def)
next
  case (Cons ch chunks)
  then obtain d ds where ch: "ch = d # ds" by (cases ch) auto
  from Cons have ih: "snd (stream_deltas chunks None) = None"
    "concat (fst (stream_deltas chunks None)) = stream_text chunks" by auto
  show ?case
    using ih by (cases d) (auto simp: ch stream_text_def split: prod.splits)
qed

text \<open>
  Claim C5 as stated fails. The upstream text \<open>" hi"\<close> comes back from \<open>get_completion\<close> as
  \<open>"hi"\<close>, because the blocking variant strips it, while the chunks of
  \<open>get_streaming_completion\<close> concatenate to \<open>" hi"\<close>.
\<close>

theorem stream_is_untrimmed:
  "fst (get_completion (streaming_platform [Some '' hi'']) groq0 ''Say hi'' Map.empty world0)
     = Inr ''hi''
   \<and> fst (get_streaming_completion (streaming_platform [Some '' hi'']) groq0 ''Say hi''
            Map.empty world0) = (['' hi''], None)
   \<and> Inr (concat (fst (fst (get_streaming_completion (streaming_platform [Some '' hi'']) groq0
            ''Say hi'' Map.empty world0))))
       \<noteq> fst (get_completion (streaming_platform [Some '' hi'']) groq0 ''Say hi'' Map.empty world0)"
  by (simp add: get_completion_def get_streaming_completion_def chat_completions_create_def
        request_params_def streaming_platform_def same_text_upstream_def test_platform_def
        stream_text_def py_strip_def py_isspace_def groq0_def world0_def)

text \<open>
  Claim C5, amended. Let the upstream answer the blocking request with a completion whose
  first choice has the content \<open>full\<close>, and the streaming request with a stream that ends
  normally, whose chunks all have a choice and whose content deltas concatenate to \<open>full\<close>.
  Then the streaming variant raises nothing, and the blocking variant returns the
  concatenation of the chunks the streaming variant yields, trimmed of surrounding
  whitespace.
\<close>

theorem stream_trimmed_is_completion:
  assumes "chat_create P (api_log w) (p_client self) (request_params self text kw False)
             = Inr (ChatCompletion (Some full # others))"
      and "chat_create P (api_log w) (p_client self) (request_params self text kw True)
             = Inr (ChatStream chunks None)"
      and "[] \<notin> set chunks"
      and "stream_text chunks = full"
  shows "snd (fst (get_streaming_completion P self text kw w)) = None
       \<and> fst (get_completion P self text kw w) =
           Inr (py_strip (concat (fst (fst (get_streaming_completion P self text kw w)))))"
proof -
  obtain ys where sd: "stream_deltas chunks None = (ys, None)" and ys: "concat ys = full"
    using stream_deltas_text [OF assms(3)] assms(4)
    by (cases "stream_deltas chunks None") auto
  have s: "fst (get_streaming_completion P self text kw w) = (ys, None)"
    by (simp add: get_streaming_completion_def chat_completions_create_def assms(2) sd)
  have b: "fst (get_completion P self text kw w) = Inr (py_strip full)"
    by (simp add: get_completion_def chat_completions_create_def assms(1))
  show ?thesis by (simp add: s b ys)
qed

text \<open>
  Claim C5, amended, on a stream with an absent first and last content and an empty delta:
  the two non-empty deltas are yielded in order.
\<close>

theorem stream_trimmed_is_completion_witness:
  "fst (get_streaming_completion (streaming_platform [None, Some '' hi'', Some [], Some '' there '', None])
          groq0 ''Say hi'' Map.empty world0) = (['' hi'', '' there ''], None)
   \<and> fst (get_completion (streaming_platform [None, Some '' hi'', Some [], Some '' there '', None])
          groq0 ''Say hi'' Map.empty world0) = Inr ''hi there''"
proof -
  let ?ds = "[None, Some '' hi'', Some [], Some '' there '', None]"
  let ?P = "streaming_platform ?ds"
  have h1: "chat_create ?P (api_log world0) (p_client groq0)
      (request_params groq0 ''Say hi'' Map.empty False)
      = Inr (ChatCompletion (Some '' hi there '' # []))"
    by (simp add: streaming_platform_def same_text_upstream_def request_params_def stream_text_def)
  have h2: "chat_create ?P (api_log world0) (p_client groq0)
      (request_params groq0 ''Say hi'' Map.empty True)
      = Inr (ChatStream (map (\<lambda>d. [d]) ?ds) None)"
    by (simp add: streaming_platform_def same_text_upstream_def request_params_def)
  have h3: "[] \<notin> set (map (\<lambda>d. [d]) ?ds)" by simp
  have h4: "stream_text (map (\<lambda>d. [d]) ?ds) = '' hi there ''" by (simp add: stream_text_def)
  have s: "fst (get_streaming_completion ?P groq0 ''Say hi'' Map.empty world0)
      = (['' hi'', '' there ''], None)"
    by (simp add: get_streaming_completion_def chat_completions_create_def
        request_params_def streaming_platform_def same_text_upstream_def)
  from stream_trimmed_is_completion [OF h1 h2 h3 h4] s show ?thesis
    by (simp add: py_strip_def py_isspace_def)
qed

section \<open>Claims about configuration and the factory\<close>

lemma known_provider_nonempty: "map_of AI_PROVIDERS name = Some entry \<Longrightarrow> name \<noteq> []"
  by (auto simp: AI_PROVIDERS_def split: if_splits)

lemma get_provider_config_no_key:
  assumes "map_of AI_PROVIDERS name = Some entry"
      and "map_of (API_KEYS C) name = None \<or> map_of (API_KEYS C) name = Some []"
  shows "get_provider_config C (Some name) =
           Inl (Exn ValueError (''API key not found for provider: '' @ name))"
  using assms known_provider_nonempty [OF assms(1)]
  by (auto simp: get_provider_config_def str_or_def Let_def)

text \<open>
  Claim C8 as stated fails in one point. With only \<open>GROQ_API_KEY\<close> set, a provider for
  \<open>openai\<close> cannot be built and no object is made, but the message of the error names the
  provider: the environment variable \<open>OPENAI_API_KEY\<close> does not occur in it.
\<close>

theorem missing_key_message_names_provider:
  "load_config [''GROQ_API_KEY'' \<mapsto> ''gsk''] = Inr config_groq_only
   \<and> map_option api_key_env (map_of AI_PROVIDERS ''openai'') = Some ''OPENAI_API_KEY''
   \<and> map_of (API_KEYS config_groq_only) ''openai'' = None
   \<and> get_provider (test_platform [] []) config_groq_only (Some ''openai'') Map.empty world0 =
       (Inl (Exn ValueError ''API key not found for provider: openai''), world0)
   \<and> \<not> str_contains ''API key not found for provider: openai'' ''OPENAI_API_KEY''"
  by (simp add: load_config_def config_groq_only_def AI_PROVIDERS_def List.map_filter_def Let_def
        get_provider_def get_provider_config_def str_or_def)

text \<open>
  Claim C8, amended. For every provider name of the table \<open>AI_PROVIDERS\<close> that has no
  (or an empty) API key, \<open>ProviderFactory.get_provider\<close> and the constructor of
  \<open>BaseAssistant\<close> raise a \<open>ValueError\<close> whose message names the provider, and the state
  is left as it was: no provider or client object has been made.
\<close>

theorem missing_key_is_fatal:
  assumes "map_of AI_PROVIDERS name = Some entry"
      and "map_of (API_KEYS C) name = None \<or> map_of (API_KEYS C) name = Some []"
  shows "get_provider P C (Some name) kw w =
           (Inl (Exn ValueError (''API key not found for provider: '' @ name)), w)
       \<and> base_assistant_init P C (Some name) model_arg temp maxtok topp kw w =
           (Inl (Exn ValueError (''API key not found for provider: '' @ name)), w)"
  using get_provider_config_no_key [OF assms] known_provider_nonempty [OF assms(1)]
  by (simp add: get_provider_def base_assistant_init_def str_or_def Let_def)

text \<open>
  Claim C8, amended, for \<open>openai\<close> when only the Groq key is set.
\<close>

theorem missing_key_is_fatal_witness:
  "map_of AI_PROVIDERS ''openai'' \<noteq> None
   \<and> map_of (API_KEYS config_groq_only) ''openai'' = None
   \<and> get_provider (test_platform [] []) config_groq_only (Some ''openai'') Map.empty world0 =
       (Inl (Exn ValueError ''API key not found for provider: openai''), world0)
   \<and> next_client_id (snd (get_provider (test_platform [] []) config_groq_only (Some ''openai'')
        Map.empty world0)) = 0"
proof -
  obtain entry where h1: "map_of AI_PROVIDERS ''openai'' = Some entry"
    by (simp add: AI_PROVIDERS_def)
  have h2: "map_of (API_KEYS config_groq_only) ''openai'' = None
      \<or> map_of (API_KEYS config_groq_only) ''openai'' = Some []"
    by (simp add: config_groq_only_def)
  from missing_key_is_fatal [OF h1 h2, where P = "test_platform [] []" and kw = Map.empty
      and w = world0] h1 h2
  show ?thesis by (simp add: world0_def config_groq_only_def)
qed

text \<open>
  As long as nothing has been registered, a name outside the registry is refused with a
  message that lists the registered names: the table of \<open>config.py\<close> and the registry then
  hold the same names.
\<close>

lemma unknown_name_default_registry:
  assumes "providers_registry w = initial_registry"
      and "name \<noteq> []"
      and "map_of (providers_registry w) name = None"
  shows "get_provider P C (Some name) kw w =
           (Inl (Exn ValueError
              (''Unknown provider: '' @ name @ ''. Available: ''
               @ repr_str_list (factory_available_providers w))), w)"
  using assms
  by (auto simp: get_provider_def get_provider_config_def str_or_def Let_def AI_PROVIDERS_def
        initial_registry_def factory_available_providers_def split: if_splits)

text \<open>
  Claim C7 fails on the code once a provider has been registered. After
  \<open>register_provider("mygroq", GroqProvider)\<close> the registry holds three names, but the
  request for the unknown name \<open>nope\<close> is refused by \<open>get_provider_config\<close> with the two
  names of \<open>AI_PROVIDERS\<close>: \<open>mygroq\<close> is not in the message. The check of the factory
  itself, which lists the registry, is never reached, and the registered name \<open>mygroq\<close> is
  refused as unknown in the same way.
\<close>

theorem registered_name_is_not_listed:
  "factory_available_providers (register_provider ''mygroq'' GroqProvider world0)
     = [''groq'', ''openai'', ''mygroq'']
   \<and> map_of (providers_registry (register_provider ''mygroq'' GroqProvider world0)) ''nope'' = None
   \<and> fst (get_provider (test_platform [] []) config0 (Some ''nope'') Map.empty
            (register_provider ''mygroq'' GroqProvider world0))
       = Inl (Exn ValueError
           (''Unknown provider: nope. Available: '' @ repr_str_list [''groq'', ''openai'']))
   \<and> \<not> str_contains
         (''Unknown provider: nope. Available: '' @ repr_str_list [''groq'', ''openai''])
         ''mygroq''
   \<and> fst (get_provider (test_platform [] []) config0 (Some ''mygroq'') Map.empty
            (register_provider ''mygroq'' GroqProvider world0))
       = Inl (Exn ValueError
           (''Unknown provider: mygroq. Available: '' @ repr_str_list [''groq'', ''openai'']))"
  by (simp add: register_provider_def factory_available_providers_def world0_def
        initial_registry_def get_provider_def get_provider_config_def str_or_def Let_def
        AI_PROVIDERS_def config0_def repr_str_list_def QUOTE_def)

section \<open>Claims about switching the provider\<close>

text \<open>
  \<open>_initialize_provider\<close> assigns \<open>self._provider\<close> only.
\<close>

lemma initialize_provider_keeps:
  "model (fst (snd (initialize_provider P C self w))) = model self
   \<and> provider_config (fst (snd (initialize_provider P C self w))) = provider_config self
   \<and> provider_name (fst (snd (initialize_provider P C self w))) = provider_name self"
  by (auto simp: initialize_provider_def split: prod.splits sum.splits)

text \<open>
  \<open>switch_provider\<close> never changes \<open>self.model\<close> or \<open>self.provider_config\<close>, whether it
  succeeds or raises.
\<close>

lemma switch_provider_keeps_model:
  "model (fst (snd (switch_provider P C new_name kw self w))) = model self
   \<and> provider_config (fst (snd (switch_provider P C new_name kw self w))) = provider_config self"
  using initialize_provider_keeps
    [of P C "self\<lparr>provider_name := new_name, kwargs := kwargs self ++ kw\<rparr>" w]
  by (simp add: switch_provider_def)

text \<open>
  A model cannot be passed to \<open>switch_provider\<close> either: the key \<open>model\<close> among its keyword
  arguments collides with \<open>model=self.model\<close> in the call of the factory.
\<close>

lemma switch_provider_rejects_model:
  assumes "kw ''model'' = Some v"
  shows "\<exists>msg. switch_provider P C new_name kw self w =
           (Inl (Exn ValueError msg),
            self\<lparr>provider_name := new_name, kwargs := kwargs self ++ kw\<rparr>, w)"
  using assms by (simp add: switch_provider_def initialize_provider_def)

text \<open>
  Claim C6 fails on the code. An assistant built for \<open>groq\<close> without a model takes the
  default model of Groq. After \<open>switch_provider("openai")\<close> the provider is an
  \<open>OpenAIProvider\<close> with the OpenAI key and a new client, but its model is still
  \<open>llama-3.1-70b-versatile\<close>, not the \<open>gpt-4\<close> of the configuration of \<open>openai\<close>;
  \<open>self.provider_config\<close> is still the configuration of \<open>groq\<close>; and the next completion
  is requested from the OpenAI client for the model of Groq.
\<close>

theorem switch_keeps_old_model:
  "(case base_assistant_init (test_platform [] [''pong'']) config0 (Some ''groq'') None
           (1 / 2) 1000 1 Map.empty world0 of
      (Inl e, w1) \<Rightarrow> False
    | (Inr a0, w1) \<Rightarrow>
        map_option p_class (provider a0) = Some GroqProvider
        \<and> map_option p_model (provider a0) = Some (PStr ''llama-3.1-70b-versatile'')
        \<and> (case switch_provider (test_platform [] [''pong'']) config0 ''openai'' Map.empty a0 w1 of
              (Inl e, a1, w2) \<Rightarrow> False
            | (Inr u, a1, w2) \<Rightarrow>
                provider_name a1 = ''openai''
                \<and> map_option p_class (provider a1) = Some OpenAIProvider
                \<and> map_option p_api_key (provider a1) = Some ''sk''
                \<and> map_option (client_id \<circ> p_client) (provider a1) = Some 1
                \<and> map_option p_model (provider a1) = Some (PStr ''llama-3.1-70b-versatile'')
                \<and> map_option default_model (map_of AI_PROVIDERS ''openai'') = Some ''gpt-4''
                \<and> default_model (provider_config a1) = ''llama-3.1-70b-versatile''
                \<and> api_key (provider_config a1) = ''gsk''
                \<and> (case assistant_get_completion (test_platform [] [''pong'']) a1 ''ping'' w2 of
                      (r, w3) \<Rightarrow>
                        r = Inr ''pong''
                        \<and> map (\<lambda>(c, params). (sdk c, client_id c, params ''model'')) (api_log w3)
                            = [(OpenAIProvider, 1, Some (PStr ''llama-3.1-70b-versatile''))])))"
  by (simp add: base_assistant_init_def initialize_provider_def get_provider_def
        get_provider_config_def new_provider_def switch_provider_def assistant_get_completion_def
        get_completion_def chat_completions_create_def request_params_def dict_get_def
        str_or_def py_of_model_def Let_def AI_PROVIDERS_def config0_def world0_def
        initial_registry_def test_platform_def replies_def py_strip_def py_isspace_def)


text \<open>
  A switch that succeeds builds a client object that did not exist before, and sends no
  request.
\<close>

lemma switch_provider_fresh_client:
  assumes "switch_provider P C new_name kw self w = (Inr u, self', w')"
  shows "\<exists>p. provider self' = Some p
           \<and> client_id (p_client p) = next_client_id w
           \<and> next_client_id w' = Suc (next_client_id w)
           \<and> api_log w' = api_log w"
  using assms
  by (auto simp: switch_provider_def initialize_provider_def get_provider_def new_provider_def
        Let_def split: if_splits sum.splits option.splits prod.splits)

section \<open>Claims about \<open>generate_code\<close>\<close>

lemma get_completion_frame:
  "files (snd (get_completion P p t kw w)) = files w
   \<and> proc_log (snd (get_completion P p t kw w)) = proc_log w
   \<and> refused (snd (get_completion P p t kw w)) = refused w"
proof (cases "chat_create P (api_log w) (p_client p) (request_params p t kw False)")
  case (Inl e)
  then show ?thesis by (simp add: get_completion_def chat_completions_create_def)
next
  case (Inr c)
  then show ?thesis
    by (cases "completion_text c") (simp_all add: get_completion_def chat_completions_create_def)
qed

lemma assistant_get_completion_frame:
  "files (snd (assistant_get_completion P self t w)) = files w
   \<and> proc_log (snd (assistant_get_completion P self t w)) = proc_log w
   \<and> refused (snd (assistant_get_completion P self t w)) = refused w"
proof (cases "provider self")
  case None
  then show ?thesis by (simp add: assistant_get_completion_def)
next
  case (Some p)
  let ?kw = "[''temperature'' \<mapsto> PFloat (temperature self),
              ''max_tokens'' \<mapsto> PInt (max_tokens self),
              ''top_p'' \<mapsto> PFloat (top_p self)]"
  obtain r w1 where g: "get_completion P p t ?kw w = (r, w1)"
    by (cases "get_completion P p t ?kw w")
  from get_completion_frame [of P p t ?kw w] g
  have "files w1 = files w \<and> proc_log w1 = proc_log w \<and> refused w1 = refused w" by simp
  then show ?thesis
    using Some g by (cases r) (simp_all add: assistant_get_completion_def)
qed

text \<open>
  With \<open>write_code_to_file=False\<close> the flag \<open>run_code\<close> is cleared first, so only the prompt
  and the completion remain of the method.
\<close>

lemma generate_code_no_write:
  "generate_code P self p False run_code cim cgf w =
     (case generate_code_prompt P p of
        Inl e \<Rightarrow> (Inl e, self, w)
      | Inr text \<Rightarrow>
          (case assistant_get_completion P (self\<lparr>prompt := text\<rparr>) text w of
             (Inl e, w1) \<Rightarrow> (Inl e, self\<lparr>prompt := text\<rparr>, w1)
           | (Inr completion, w1) \<Rightarrow>
               (Inr (remove_python_prefix completion),
                self\<lparr>prompt := text, generated_code := remove_python_prefix completion\<rparr>, w1)))"
  by (simp add: generate_code_def Let_def split: sum.splits prod.splits)

lemma generate_code_no_write_frame:
  "files (snd (snd (generate_code P self p False run_code cim cgf w))) = files w
   \<and> proc_log (snd (snd (generate_code P self p False run_code cim cgf w))) = proc_log w"
proof (cases "generate_code_prompt P p")
  case (Inl e)
  then show ?thesis by (simp add: generate_code_no_write)
next
  case (Inr t)
  obtain r w1 where g: "assistant_get_completion P (self\<lparr>prompt := t\<rparr>) t w = (r, w1)"
    by (cases "assistant_get_completion P (self\<lparr>prompt := t\<rparr>) t w")
  from assistant_get_completion_frame [of P "self\<lparr>prompt := t\<rparr>" t w] g
  have "files w1 = files w \<and> proc_log w1 = proc_log w" by simp
  then show ?thesis
    using Inr g by (cases r) (simp_all add: generate_code_no_write)
qed

text \<open>
  Claim C9. With \<open>write_code_to_file=False\<close>, whatever \<open>run_code\<close> and the two cleanup flags
  are, \<open>generate_code\<close> leaves every file as it was and starts no child process; and when
  the prompt is built and the completion arrives, it returns the completion with the
  Markdown prefix removed (\<open>_remove_python_prefix\<close>), which is also what it stores in
  \<open>self.generated_code\<close>.
\<close>

theorem no_write_no_run:
  "files (snd (snd (generate_code P self p False run_code cim cgf w))) = files w
   \<and> proc_log (snd (snd (generate_code P self p False run_code cim cgf w))) = proc_log w
   \<and> (generate_code_prompt P p = Inr text \<longrightarrow>
        assistant_get_completion P (self\<lparr>prompt := text\<rparr>) text w = (Inr completion, w1) \<longrightarrow>
        generate_code P self p False run_code cim cgf w =
          (Inr (remove_python_prefix completion),
           self\<lparr>prompt := text, generated_code := remove_python_prefix completion\<rparr>, w1))"
  using generate_code_no_write_frame [of P self p run_code cim cgf w]
  by (simp add: generate_code_no_write)

text \<open>
  The object \<open>chat0\<close> is what the constructor builds when both keys are set.
\<close>

lemma chat0_is_constructed:
  "chat_python_init (test_platform [] []) config0 ''/tmp'' None None (1 / 2) 1000 1 Map.empty world0
     = (Inr chat0, world0\<lparr>next_client_id := 1\<rparr>)"
  by (simp add: chat_python_init_def base_assistant_init_def initialize_provider_def
        get_provider_def get_provider_config_def new_provider_def str_or_def py_of_model_def
        dict_get_def Let_def AI_PROVIDERS_def config0_def world0_def initial_registry_def
        test_platform_def chat0_def groq0_def)

lemma fenced_code_stripped: "remove_python_prefix fenced_code = [LF] @ ''print(1)''"
  by (simp add: fenced_code_def remove_python_prefix_def remove_char_def BACKTICK_def LF_def
        CR_def splitlines_def is_linebreak_def py_strip_def py_isspace_def)

lemma chat0_first_completion:
  "fst (assistant_get_completion (test_platform rs (fenced_code # xs)) (chat0\<lparr>prompt := t\<rparr>) t world0)
     = Inr (py_strip fenced_code)"
  by (simp add: assistant_get_completion_def get_completion_def chat_completions_create_def
        chat0_def test_platform_def replies_def world0_def)

lemma fenced_code_strip: "py_strip fenced_code = fenced_code"
  by (simp add: fenced_code_def py_strip_def py_isspace_def BACKTICK_def LF_def)

text \<open>
  Claim C9 with \<open>run_code=True\<close> on a fenced completion: the fence and the word
  \<open>python\<close> are gone, nothing is written and nothing is run.
\<close>

theorem no_write_no_run_witness:
  "generate_code_prompt (test_platform [] [fenced_code]) ''print one'' = Inr ''Write Python code: print one''
   \<and> fst (generate_code (test_platform [] [fenced_code]) chat0 ''print one'' False True True True world0)
       = Inr ([LF] @ ''print(1)'')
   \<and> files (snd (snd (generate_code (test_platform [] [fenced_code]) chat0 ''print one'' False True
        True True world0))) = Map.empty
   \<and> proc_log (snd (snd (generate_code (test_platform [] [fenced_code]) chat0 ''print one'' False True
        True True world0))) = []"
proof -
  let ?P = "test_platform [] [fenced_code]"
  let ?t = "''Write Python code: print one''"
  have h1: "generate_code_prompt ?P ''print one'' = Inr ?t"
    by (simp add: test_platform_def)
  obtain w1 where h2: "assistant_get_completion ?P (chat0\<lparr>prompt := ?t\<rparr>) ?t world0
      = (Inr fenced_code, w1)"
    using chat0_first_completion [of "[]" "[]" ?t]
    by (cases "assistant_get_completion ?P (chat0\<lparr>prompt := ?t\<rparr>) ?t world0")
       (simp add: fenced_code_strip)
  have fw: "files world0 = Map.empty" "proc_log world0 = []"
    by (simp_all add: world0_def)
  note inst = no_write_no_run [of ?P chat0 "''print one''" True True True world0 ?t fenced_code w1]
  from inst have a: "files (snd (snd (generate_code ?P chat0 ''print one'' False True True True world0)))
      = files world0"
    and b: "proc_log (snd (snd (generate_code ?P chat0 ''print one'' False True True True world0)))
      = proc_log world0"
    by simp_all
  from inst h1 h2
  have c: "fst (generate_code ?P chat0 ''print one'' False True True True world0)
      = Inr (remove_python_prefix fenced_code)"
    by simp
  show ?thesis
    by (simp add: a b c h1 fenced_code_stripped fw)
qed

lemma generate_code_run:
  "generate_code P self p True True cim cgf w =
     (case generate_code_prompt P p of
        Inl e \<Rightarrow> (Inl e, self, w)
      | Inr text \<Rightarrow>
          (case assistant_get_completion P (self\<lparr>prompt := text\<rparr>) text w of
             (Inl e, w1) \<Rightarrow> (Inl e, self\<lparr>prompt := text\<rparr>, w1)
           | (Inr completion, w1) \<Rightarrow>
               write_and_run P
                 (self\<lparr>prompt := text, generated_code := remove_python_prefix completion\<rparr>)
                 cim cgf w1))"
  by (simp add: generate_code_def Let_def split: sum.splits prod.splits)

lemma write_code_to_file_keeps:
  assumes "write_code_to_file P s w = (r, s', w')"
  shows "generated_code s' = generated_code s \<and> root_directory s' = root_directory s"
proof -
  obtain g w1 where g: "generate_file_name P s w = (g, w1)"
    by (cases "generate_file_name P s w")
  show ?thesis
  proof (cases g)
    case (Inl e)
    with assms g show ?thesis by (auto simp: write_code_to_file_def)
  next
    case (Inr name)
    obtain m w2 where m: "os_makedirs (os_path_join (root_directory s) []) w1 = (m, w2)"
      by (cases "os_makedirs (os_path_join (root_directory s) []) w1")
    show ?thesis
    proof (cases m)
      case (Inl e)
      with assms g Inr m show ?thesis by (auto simp: write_code_to_file_def Let_def)
    next
      case (Inr u)
      obtain x w3 where x: "write_file (os_path_join (os_path_join (root_directory s) []) name)
          (generated_code s) w2 = (x, w3)"
        by (cases "write_file (os_path_join (os_path_join (root_directory s) []) name)
          (generated_code s) w2")
      from assms g \<open>g = Inr name\<close> m Inr x show ?thesis
        by (cases x) (auto simp: write_code_to_file_def Let_def split: if_splits)
    qed
  qed
qed

text \<open>
  Claim C10. When the prompt is built, the completion arrives, the code is written and the
  loop ends in success with the standard output \<open>out\<close>, \<open>generate_code\<close> returns \<open>out\<close> if it
  is not empty and the generated source text (the completion without its Markdown prefix)
  if it is.
\<close>

theorem empty_output_returns_code:
  assumes "generate_code_prompt P p = Inr text"
      and "assistant_get_completion P (self\<lparr>prompt := text\<rparr>) text w = (Inr completion, w1)"
      and "write_code_to_file P
             (self\<lparr>prompt := text, generated_code := remove_python_prefix completion\<rparr>) w1
             = (Inr u, self3, w2)"
      and "run_generated_code P (root_directory self3) (file_name self3) cim w2 = (Inr out, w3)"
  shows "fst (generate_code P self p True True cim cgf w) =
           Inr (if out = [] then remove_python_prefix completion else out)"
proof -
  have code: "generated_code self3 = remove_python_prefix completion"
    using write_code_to_file_keeps [OF assms(3)] by simp
  show ?thesis
    by (simp add: generate_code_run assms write_and_run_def Let_def code)
qed


text \<open>
  The concrete run up to the written file: the second answer of the service names the
  file \<open>a.py\<close>, and the code is written to \<open>/tmp/a.py\<close>.
\<close>

lemma written_then_run:
  assumes "code \<noteq> []"
  shows
  "fst (write_code_to_file (test_platform rs [fenced_code, ''a.py''])
          (chat0\<lparr>prompt := t, generated_code := code\<rparr>)
          (snd (assistant_get_completion (test_platform rs [fenced_code, ''a.py''])
                  (chat0\<lparr>prompt := t\<rparr>) t world0))) = Inr ()"
  "file_name (fst (snd (write_code_to_file (test_platform rs [fenced_code, ''a.py''])
          (chat0\<lparr>prompt := t, generated_code := code\<rparr>)
          (snd (assistant_get_completion (test_platform rs [fenced_code, ''a.py''])
                  (chat0\<lparr>prompt := t\<rparr>) t world0))))) = ''a.py''"
  "root_directory (fst (snd (write_code_to_file (test_platform rs [fenced_code, ''a.py''])
          (chat0\<lparr>prompt := t, generated_code := code\<rparr>)
          (snd (assistant_get_completion (test_platform rs [fenced_code, ''a.py''])
                  (chat0\<lparr>prompt := t\<rparr>) t world0))))) = ''/tmp''"
  "files (snd (snd (write_code_to_file (test_platform rs [fenced_code, ''a.py''])
          (chat0\<lparr>prompt := t, generated_code := code\<rparr>)
          (snd (assistant_get_completion (test_platform rs [fenced_code, ''a.py''])
                  (chat0\<lparr>prompt := t\<rparr>) t world0))))) = [''/tmp/a.py'' \<mapsto> code]"
  "proc_log (snd (snd (write_code_to_file (test_platform rs [fenced_code, ''a.py''])
          (chat0\<lparr>prompt := t, generated_code := code\<rparr>)
          (snd (assistant_get_completion (test_platform rs [fenced_code, ''a.py''])
                  (chat0\<lparr>prompt := t\<rparr>) t world0))))) = []"
  "refused (snd (snd (write_code_to_file (test_platform rs [fenced_code, ''a.py''])
          (chat0\<lparr>prompt := t, generated_code := code\<rparr>)
          (snd (assistant_get_completion (test_platform rs [fenced_code, ''a.py''])
                  (chat0\<lparr>prompt := t\<rparr>) t world0))))) = {}"
  using assms
  by (simp_all add: write_code_to_file_def generate_file_name_def assistant_get_completion_def
        get_completion_def chat_completions_create_def os_makedirs_def write_file_def
        os_path_join_def remove_char_def first_line_def py_strip_def py_isspace_def
        chat0_def test_platform_def replies_def world0_def DQUOTE_def LF_def Let_def)

lemma run_silent:
  assumes "files w = [''/tmp/a.py'' \<mapsto> code]" and "proc_log w = []"
  shows "fst (run_generated_code (test_platform [Inr silent] xs) ''/tmp'' ''a.py'' cim w) = Inr []"
  using assms
  by (simp add: run_generated_code_def run_script_def subprocess_run_def os_path_exists_def
        os_path_join_def run_argv_def test_platform_def scripted_def silent_def Let_def)

lemma run_hello:
  assumes "files w = [''/tmp/a.py'' \<mapsto> code]" and "proc_log w = []"
  shows "fst (run_generated_code (test_platform [Inr hello] xs) ''/tmp'' ''a.py'' cim w)
           = Inr ''hello''"
  using assms
  by (simp add: run_generated_code_def run_script_def subprocess_run_def os_path_exists_def
        os_path_join_def run_argv_def test_platform_def scripted_def hello_def Let_def)

text \<open>
  Claim C10 on a script that prints nothing, where the caller gets the source text back,
  and on one that prints \<open>hello\<close>, where the caller gets \<open>hello\<close>.
\<close>

theorem empty_output_returns_code_witness:
  "stdout silent = []
   \<and> fst (generate_code (test_platform [Inr silent] [fenced_code, ''a.py'']) chat0 ''print one''
            True True True True world0) = Inr ([LF] @ ''print(1)'')
   \<and> fst (generate_code (test_platform [Inr hello] [fenced_code, ''a.py'']) chat0 ''print one''
            True True True True world0) = Inr ''hello''"
proof -
  let ?t = "''Write Python code: print one''"
  let ?code = "[LF] @ ''print(1)''"
  have ne: "?code \<noteq> []" by simp
  have silent_case:
    "fst (generate_code (test_platform [Inr silent] [fenced_code, ''a.py'']) chat0 ''print one''
            True True True True world0) = Inr ?code"
  proof -
    let ?P = "test_platform [Inr silent] [fenced_code, ''a.py'']"
    let ?w1 = "snd (assistant_get_completion ?P (chat0\<lparr>prompt := ?t\<rparr>) ?t world0)"
    let ?W = "write_code_to_file ?P
        (chat0\<lparr>prompt := ?t, generated_code := remove_python_prefix fenced_code\<rparr>) ?w1"
    let ?R = "run_generated_code ?P (root_directory (fst (snd ?W))) (file_name (fst (snd ?W)))
        True (snd (snd ?W))"
    have h1: "generate_code_prompt ?P ''print one'' = Inr ?t"
      by (simp add: test_platform_def)
    have h2: "assistant_get_completion ?P (chat0\<lparr>prompt := ?t\<rparr>) ?t world0
        = (Inr fenced_code, ?w1)"
      using chat0_first_completion [of "[Inr silent]" "[''a.py'']" ?t]
      by (simp add: prod_eq_iff fenced_code_strip)
    have h3: "?W = (Inr (), fst (snd ?W), snd (snd ?W))"
      using written_then_run(1) [OF ne, of "[Inr silent]" ?t]
      by (simp add: prod_eq_iff fenced_code_stripped)
    have h4: "?R = (Inr (stdout silent), snd ?R)"
      using written_then_run(2-5) [OF ne, of "[Inr silent]" ?t]
        run_silent [of "snd (snd ?W)" ?code "[fenced_code, ''a.py'']" True]
      by (simp add: prod_eq_iff fenced_code_stripped silent_def)
    from empty_output_returns_code [OF h1 h2 h3 h4, of True]
    show ?thesis by (simp add: fenced_code_stripped silent_def)
  qed
  have hello_case:
    "fst (generate_code (test_platform [Inr hello] [fenced_code, ''a.py'']) chat0 ''print one''
            True True True True world0) = Inr ''hello''"
  proof -
    let ?P = "test_platform [Inr hello] [fenced_code, ''a.py'']"
    let ?w1 = "snd (assistant_get_completion ?P (chat0\<lparr>prompt := ?t\<rparr>) ?t world0)"
    let ?W = "write_code_to_file ?P
        (chat0\<lparr>prompt := ?t, generated_code := remove_python_prefix fenced_code\<rparr>) ?w1"
    let ?R = "run_generated_code ?P (root_directory (fst (snd ?W))) (file_name (fst (snd ?W)))
        True (snd (snd ?W))"
    have h1: "generate_code_prompt ?P ''print one'' = Inr ?t"
      by (simp add: test_platform_def)
    have h2: "assistant_get_completion ?P (chat0\<lparr>prompt := ?t\<rparr>) ?t world0
        = (Inr fenced_code, ?w1)"
      using chat0_first_completion [of "[Inr hello]" "[''a.py'']" ?t]
      by (simp add: prod_eq_iff fenced_code_strip)
    have h3: "?W = (Inr (), fst (snd ?W), snd (snd ?W))"
      using written_then_run(1) [OF ne, of "[Inr hello]" ?t]
      by (simp add: prod_eq_iff fenced_code_stripped)
    have h4: "?R = (Inr (stdout hello), snd ?R)"
      using written_then_run(2-5) [OF ne, of "[Inr hello]" ?t]
        run_hello [of "snd (snd ?W)" ?code "[fenced_code, ''a.py'']" True]
      by (simp add: prod_eq_iff fenced_code_stripped hello_def)
    from empty_output_returns_code [OF h1 h2 h3 h4, of True]
    show ?thesis by (simp add: hello_def)
  qed
  show ?thesis
    using silent_case hello_case by (simp add: silent_def)
qed

text \<open>
  The path the code is written to (\<open>_write_code_to_file\<close> joins the root with the empty
  path first) is the path that is run and removed.
\<close>

lemma os_path_join_twice: "os_path_join (os_path_join a []) b = os_path_join a b"
  by (simp add: os_path_join_def)

lemma cleanup_file_removes:
  "files (cleanup_file s w) (os_path_join (root_directory s) (file_name s)) = None
   \<or> (OpRemove, os_path_join (root_directory s) (file_name s)) \<in> refused (cleanup_file s w)"
  by (simp add: cleanup_file_def os_remove_def)

lemma write_and_run_cases:
  assumes "write_and_run P s cim cgf w = (Inr out, s', w')"
  shows "\<exists>u w1 output w2.
           write_code_to_file P s w = (Inr u, s', w1)
           \<and> run_generated_code P (root_directory s') (file_name s') cim w1 = (Inr output, w2)
           \<and> w' = (if cgf then cleanup_file s' w2 else w2)"
proof -
  obtain r s1 w1 where W: "write_code_to_file P s w = (r, s1, w1)"
    by (cases "write_code_to_file P s w")
  show ?thesis
  proof (cases r)
    case (Inl e)
    with assms W show ?thesis by (simp add: write_and_run_def)
  next
    case (Inr u)
    obtain r2 w2 where R: "run_generated_code P (root_directory s1) (file_name s1) cim w1 = (r2, w2)"
      by (cases "run_generated_code P (root_directory s1) (file_name s1) cim w1")
    from assms W Inr R show ?thesis
      by (cases r2) (auto simp: write_and_run_def Let_def)
  qed
qed

text \<open>
  Claim C1, amended. When \<open>generate_code\<close> is called with \<open>cleanup_generated_file\<close> set and
  returns normally (the loop ended in success), the file it wrote no longer exists
  afterwards, unless the operating system refused its removal, which is only printed.
\<close>

theorem artifact_removed_after_success:
  assumes "generate_code P self p True True cim True w = (Inr out, self', w')"
  shows "files w' (os_path_join (root_directory self') (file_name self')) = None
       \<or> (OpRemove, os_path_join (root_directory self') (file_name self')) \<in> refused w'"
proof (cases "generate_code_prompt P p")
  case (Inl e)
  with assms show ?thesis by (simp add: generate_code_run)
next
  case (Inr t)
  obtain r w1 where A: "assistant_get_completion P (self\<lparr>prompt := t\<rparr>) t w = (r, w1)"
    by (cases "assistant_get_completion P (self\<lparr>prompt := t\<rparr>) t w")
  show ?thesis
  proof (cases r)
    case (Inl e)
    with assms Inr A show ?thesis by (simp add: generate_code_run)
  next
    case (Inr completion)
    with assms \<open>generate_code_prompt P p = Inr t\<close> A
    have "write_and_run P
            (self\<lparr>prompt := t, generated_code := remove_python_prefix completion\<rparr>)
            cim True w1 = (Inr out, self', w')"
      by (simp add: generate_code_run)
    from write_and_run_cases [OF this]
    obtain w2 where "w' = cleanup_file self' w2" by auto
    with cleanup_file_removes [of self' w2] show ?thesis by simp
  qed
qed

text \<open>
  When the loop raises, \<open>generate_code\<close> raises the same exception and leaves the state as
  the loop left it: lines 71 to 77 are not reached.
\<close>

lemma failure_keeps_artifact:
  assumes "generate_code_prompt P p = Inr text"
      and "assistant_get_completion P (self\<lparr>prompt := text\<rparr>) text w = (Inr completion, w1)"
      and "write_code_to_file P
             (self\<lparr>prompt := text, generated_code := remove_python_prefix completion\<rparr>) w1
             = (Inr u, self3, w2)"
      and "run_generated_code P (root_directory self3) (file_name self3) cim w2 = (Inl e, w3)"
  shows "generate_code P self p True True cim cgf w = (Inl e, self3, w3)"
  by (simp add: generate_code_run assms write_and_run_def)

lemma run_boom:
  assumes "files w = [''/tmp/a.py'' \<mapsto> code]" and "proc_log w = []"
  shows "run_generated_code (test_platform [Inr boom] xs) ''/tmp'' ''a.py'' cim w =
           (Inl (Exn Exception
              (RED @ ''Cannot run code: '' @ RED @ ''Script error:'' @ [LF] @ ''NameError: boom''
               @ RESET @ RESET)),
            w\<lparr>files := [''/tmp/a.py'' \<mapsto> code],
              proc_log := [[''/usr/bin/python3'', ''/tmp/a.py'']]\<rparr>)"
  using assms
  by (simp add: run_generated_code_def run_script_def subprocess_run_def os_path_exists_def
        os_path_join_def run_argv_def test_platform_def scripted_def boom_def Let_def
        match_here_def NO_MODULE_def)

lemma run_silent_state:
  assumes "files w = [''/tmp/a.py'' \<mapsto> code]" and "proc_log w = []"
  shows "run_generated_code (test_platform [Inr silent] xs) ''/tmp'' ''a.py'' cim w =
           (Inr [], w\<lparr>files := [''/tmp/a.py'' \<mapsto> code],
                     proc_log := [[''/usr/bin/python3'', ''/tmp/a.py'']]\<rparr>)"
  using assms
  by (simp add: run_generated_code_def run_script_def subprocess_run_def os_path_exists_def
        os_path_join_def run_argv_def test_platform_def scripted_def silent_def Let_def)

text \<open>
  Claim C1 as stated fails. With \<open>cleanup_generated_file\<close> set and a script that fails with
  a \<open>NameError\<close>, \<open>generate_code\<close> raises and the written file \<open>/tmp/a.py\<close> still exists
  afterwards with the generated code in it.
\<close>

theorem failed_run_leaves_artifact:
  "fst (generate_code (test_platform [Inr boom] [fenced_code, ''a.py'']) chat0 ''print one''
          True True True True world0)
     = Inl (Exn Exception
         (RED @ ''Cannot run code: '' @ RED @ ''Script error:'' @ [LF] @ ''NameError: boom''
          @ RESET @ RESET))
   \<and> file_name (fst (snd (generate_code (test_platform [Inr boom] [fenced_code, ''a.py'']) chat0
          ''print one'' True True True True world0))) = ''a.py''
   \<and> os_path_join ''/tmp'' ''a.py'' = ''/tmp/a.py''
   \<and> files (snd (snd (generate_code (test_platform [Inr boom] [fenced_code, ''a.py'']) chat0
          ''print one'' True True True True world0))) ''/tmp/a.py'' = Some ([LF] @ ''print(1)'')"
proof -
  let ?P = "test_platform [Inr boom] [fenced_code, ''a.py'']"
  let ?t = "''Write Python code: print one''"
  let ?code = "remove_python_prefix fenced_code"
  let ?w1 = "snd (assistant_get_completion ?P (chat0\<lparr>prompt := ?t\<rparr>) ?t world0)"
  let ?W = "write_code_to_file ?P (chat0\<lparr>prompt := ?t, generated_code := ?code\<rparr>) ?w1"
  define s3 where "s3 = fst (snd ?W)"
  define w2 where "w2 = snd (snd ?W)"
  have ne: "?code \<noteq> []" by (simp add: fenced_code_stripped)
  have h1: "generate_code_prompt ?P ''print one'' = Inr ?t"
    by (simp add: test_platform_def)
  have h2: "assistant_get_completion ?P (chat0\<lparr>prompt := ?t\<rparr>) ?t world0
      = (Inr fenced_code, ?w1)"
    using chat0_first_completion [of "[Inr boom]" "[''a.py'']" ?t]
    by (simp add: prod_eq_iff fenced_code_strip)
  have h3: "?W = (Inr (), s3, w2)"
    using written_then_run(1) [OF ne, of "[Inr boom]" ?t]
    by (simp add: prod_eq_iff s3_def w2_def)
  have name: "file_name s3 = ''a.py''" and dir: "root_directory s3 = ''/tmp''"
    and fs: "files w2 = [''/tmp/a.py'' \<mapsto> ?code]" and pl: "proc_log w2 = []"
    using written_then_run(2-5) [OF ne, of "[Inr boom]" ?t]
    by (simp_all add: s3_def w2_def)
  have h4: "run_generated_code ?P (root_directory s3) (file_name s3) True w2 =
      (Inl (Exn Exception
         (RED @ ''Cannot run code: '' @ RED @ ''Script error:'' @ [LF] @ ''NameError: boom''
          @ RESET @ RESET)),
       w2\<lparr>files := [''/tmp/a.py'' \<mapsto> ?code],
           proc_log := [[''/usr/bin/python3'', ''/tmp/a.py'']]\<rparr>)"
    using run_boom [OF fs pl] by (simp add: name dir)
  have "generate_code ?P chat0 ''print one'' True True True True world0 =
      (Inl (Exn Exception
         (RED @ ''Cannot run code: '' @ RED @ ''Script error:'' @ [LF] @ ''NameError: boom''
          @ RESET @ RESET)), s3,
       w2\<lparr>files := [''/tmp/a.py'' \<mapsto> ?code],
           proc_log := [[''/usr/bin/python3'', ''/tmp/a.py'']]\<rparr>)"
    by (rule failure_keeps_artifact [OF h1 h2 h3 h4])
  then show ?thesis
    by (simp add: name fenced_code_stripped os_path_join_def)
qed

text \<open>
  Claim C1, amended, on a script that runs without output: the source text is returned and
  \<open>/tmp/a.py\<close> is gone.
\<close>

theorem artifact_removed_after_success_witness:
  "fst (generate_code (test_platform [Inr silent] [fenced_code, ''a.py'']) chat0 ''print one''
          True True True True world0) = Inr ([LF] @ ''print(1)'')
   \<and> os_path_join
        (root_directory (fst (snd (generate_code (test_platform [Inr silent] [fenced_code, ''a.py''])
           chat0 ''print one'' True True True True world0))))
        (file_name (fst (snd (generate_code (test_platform [Inr silent] [fenced_code, ''a.py''])
           chat0 ''print one'' True True True True world0)))) = ''/tmp/a.py''
   \<and> refused (snd (snd (generate_code (test_platform [Inr silent] [fenced_code, ''a.py'']) chat0
          ''print one'' True True True True world0))) = {}
   \<and> files (snd (snd (generate_code (test_platform [Inr silent] [fenced_code, ''a.py'']) chat0
          ''print one'' True True True True world0))) ''/tmp/a.py'' = None"
proof -
  let ?P = "test_platform [Inr silent] [fenced_code, ''a.py'']"
  let ?t = "''Write Python code: print one''"
  let ?code = "remove_python_prefix fenced_code"
  define w1 where "w1 = snd (assistant_get_completion ?P (chat0\<lparr>prompt := ?t\<rparr>) ?t world0)"
  let ?W = "write_code_to_file ?P (chat0\<lparr>prompt := ?t, generated_code := ?code\<rparr>) w1"
  let ?G = "generate_code ?P chat0 ''print one'' True True True True world0"
  define s3 where "s3 = fst (snd ?W)"
  define w2 where "w2 = snd (snd ?W)"
  define w3 where "w3 = w2\<lparr>files := [''/tmp/a.py'' \<mapsto> ?code],
                 proc_log := [[''/usr/bin/python3'', ''/tmp/a.py'']]\<rparr>"
  have ne: "?code \<noteq> []" by (simp add: fenced_code_stripped)
  have h1: "generate_code_prompt ?P ''print one'' = Inr ?t"
    by (simp add: test_platform_def)
  have h2: "assistant_get_completion ?P (chat0\<lparr>prompt := ?t\<rparr>) ?t world0
      = (Inr fenced_code, w1)"
    using chat0_first_completion [of "[Inr silent]" "[''a.py'']" ?t]
    by (simp add: prod_eq_iff fenced_code_strip w1_def)
  have h3: "?W = (Inr (), s3, w2)"
    using written_then_run(1) [OF ne, of "[Inr silent]" ?t]
    by (simp add: prod_eq_iff s3_def w2_def w1_def)
  have name: "file_name s3 = ''a.py''" and dir: "root_directory s3 = ''/tmp''"
    and fs: "files w2 = [''/tmp/a.py'' \<mapsto> ?code]" and pl: "proc_log w2 = []"
    and rf: "refused w2 = {}"
    using written_then_run(2-6) [OF ne, of "[Inr silent]" ?t]
    by (simp_all add: s3_def w2_def w1_def)
  have h4: "run_generated_code ?P (root_directory s3) (file_name s3) True w2 = (Inr [], w3)"
    using run_silent_state [OF fs pl] by (simp add: name dir w3_def)
  have code: "generated_code s3 = ?code"
    using write_code_to_file_keeps [OF h3] by simp
  have WR: "write_and_run ?P (chat0\<lparr>prompt := ?t, generated_code := ?code\<rparr>) True True w1
      = (Inr ?code, s3, cleanup_file s3 w3)"
    unfolding write_and_run_def h3 by (simp add: h4 code)
  have G: "?G = (Inr ?code, s3, cleanup_file s3 w3)"
    unfolding generate_code_run h1 by (simp only: h2 sum.case prod.case WR)
  from artifact_removed_after_success [OF G]
  have gone: "files (cleanup_file s3 w3) (os_path_join (root_directory s3) (file_name s3)) = None
      \<or> (OpRemove, os_path_join (root_directory s3) (file_name s3)) \<in> refused (cleanup_file s3 w3)" .
  have kept: "refused (cleanup_file s3 w3) = {}"
    by (simp add: cleanup_file_def os_remove_def name dir rf os_path_join_def w3_def)
  have path: "os_path_join (root_directory s3) (file_name s3) = ''/tmp/a.py''"
    by (simp add: name dir os_path_join_def)
  from gone kept path have "files (cleanup_file s3 w3) ''/tmp/a.py'' = None" by simp
  with kept path show ?thesis
    unfolding G by (simp add: fenced_code_stripped)
qed

end
